theory Spec2Isabelle
  imports Complex_Main "HOL-Library.Sublist"
begin

unbundle bit_operations_syntax

section \<open>Python values\<close>

text \<open>
  The program is a Python script. Its values are modelled by one datatype: the cells of a
  recipient row, the request payload and a parsed JSON response body are all Python
  objects. A \<open>str\<close> is a \<open>string\<close> whose characters stand for code points below 256; a
  \<open>float\<close> is carried by its \<open>repr\<close> text, since the script never computes with one; a
  \<open>dict\<close> with string keys is an association list in insertion order.
\<close>

datatype pyval =
    PNone
  | PBool bool
  | PInt int
  | PFloat string
  | PStr string
  | PList "pyval list"
  | PDict "(string \<times> pyval) list"

type_synonym pydict = "(string \<times> pyval) list"

text \<open>Truth value of an object, as tested by \<open>if x:\<close>.\<close>

fun py_truthy :: "pyval \<Rightarrow> bool" where
  "py_truthy PNone = False"
| "py_truthy (PBool b) = b"
| "py_truthy (PInt n) = (n \<noteq> 0)"
| "py_truthy (PFloat r) = (r \<noteq> ''0.0'' \<and> r \<noteq> ''-0.0'')"
| "py_truthy (PStr s) = (s \<noteq> [])"
| "py_truthy (PList xs) = (xs \<noteq> [])"
| "py_truthy (PDict kvs) = (kvs \<noteq> [])"

text \<open>Characters that cannot be written inside a string literal.\<close>

definition dquote :: char where "dquote = CHR 0x22"
definition squote :: char where "squote = CHR 0x27"
definition backslash :: char where "backslash = CHR 0x5C"
definition newline :: char where "newline = CHR 0x0A"

definition digit_char :: "nat \<Rightarrow> char" where
  "digit_char d = ''0123456789abcdef'' ! d"

text \<open>Decimal text of a natural number, without padding.\<close>

fun dec_nat :: "nat \<Rightarrow> string" where
  "dec_nat n = (if n < 10 then [digit_char n] else dec_nat (n div 10) @ [digit_char (n mod 10)])"

declare dec_nat.simps [simp del]

definition py_str_int :: "int \<Rightarrow> string" where
  "py_str_int n = (if n < 0 then CHR ''-'' # dec_nat (nat (- n)) else dec_nat (nat n))"

definition hex2 :: "nat \<Rightarrow> string" where
  "hex2 n = [digit_char (n div 16), digit_char (n mod 16)]"

definition join_with :: "string \<Rightarrow> string list \<Rightarrow> string" where
  "join_with sep xs = (case xs of [] \<Rightarrow> [] | y # ys \<Rightarrow> y @ concat (map (\<lambda>z. sep @ z) ys))"

text \<open>
  \<open>repr\<close> of a \<open>str\<close>: single quotes unless the text has a single and no double quote;
  the quote and the backslash are escaped, control and non-printable characters are
  written \<open>\xhh\<close>.
\<close>

definition repr_char :: "char \<Rightarrow> char \<Rightarrow> string" where
  "repr_char q c =
     (let n = (of_char c :: nat) in
      if c = q \<or> c = backslash then [backslash, c]
      else if n = 9 then [backslash, CHR ''t'']
      else if n = 10 then [backslash, CHR ''n'']
      else if n = 13 then [backslash, CHR ''r'']
      else if n < 32 \<or> n = 127 then [backslash, CHR ''x''] @ hex2 n
      else if n < 127 then [c]
      else if n \<le> 160 \<or> n = 173 then [backslash, CHR ''x''] @ hex2 n
      else [c])"

definition py_repr_str :: "string \<Rightarrow> string" where
  "py_repr_str s =
     (let q = (if squote \<in> set s \<and> dquote \<notin> set s then dquote else squote)
      in [q] @ concat (map (repr_char q) s) @ [q])"

fun py_repr :: "pyval \<Rightarrow> string" where
  "py_repr PNone = ''None''"
| "py_repr (PBool b) = (if b then ''True'' else ''False'')"
| "py_repr (PInt n) = py_str_int n"
| "py_repr (PFloat r) = r"
| "py_repr (PStr s) = py_repr_str s"
| "py_repr (PList xs) = ''['' @ join_with '', '' (map py_repr xs) @ '']''"
| "py_repr (PDict kvs) =
     ''{'' @ join_with '', '' (map (\<lambda>kv. py_repr_str (fst kv) @ '': '' @ py_repr (snd kv)) kvs) @ ''}''"

text \<open>\<open>str(x)\<close>, also what an f-string writes for \<open>{x}\<close>.\<close>

fun py_str :: "pyval \<Rightarrow> string" where
  "py_str (PStr s) = s"
| "py_str v = py_repr v"

text \<open>\<open>s.strip()\<close>: the white space of \<open>str.isspace\<close> among the code points below 256.\<close>

definition py_isspace :: "char \<Rightarrow> bool" where
  "py_isspace c =
     (let n = (of_char c :: nat) in (9 \<le> n \<and> n \<le> 13) \<or> (28 \<le> n \<and> n \<le> 32) \<or> n = 133 \<or> n = 160)"

definition py_strip :: "string \<Rightarrow> string" where
  "py_strip s = rev (dropWhile py_isspace (rev (dropWhile py_isspace s)))"

text \<open>\<open>d.get(k, default)\<close> and \<open>d[k] = v\<close> on a dict.\<close>

definition dict_get :: "pydict \<Rightarrow> string \<Rightarrow> pyval \<Rightarrow> pyval" where
  "dict_get d k dflt = (case map_of d k of None \<Rightarrow> dflt | Some v \<Rightarrow> v)"

fun dict_set :: "pydict \<Rightarrow> string \<Rightarrow> pyval \<Rightarrow> pydict" where
  "dict_set [] k v = [(k, v)]"
| "dict_set ((k', v') # d) k v = (if k' = k then (k, v) # d else (k', v') # dict_set d k v)"

definition py_type_name :: "pyval \<Rightarrow> string" where
  "py_type_name v =
     (case v of PNone \<Rightarrow> ''NoneType'' | PBool _ \<Rightarrow> ''bool'' | PInt _ \<Rightarrow> ''int''
      | PFloat _ \<Rightarrow> ''float'' | PStr _ \<Rightarrow> ''str'' | PList _ \<Rightarrow> ''list'' | PDict _ \<Rightarrow> ''dict'')"

text \<open>
  \<open>x.get(k, default)\<close> on an arbitrary object: only a dict has the method, anything else
  raises \<open>AttributeError\<close>, whose text is the left summand.
\<close>

definition py_get :: "pyval \<Rightarrow> string \<Rightarrow> pyval \<Rightarrow> string + pyval" where
  "py_get x k dflt =
     (case x of
        PDict d \<Rightarrow> Inr (dict_get d k dflt)
      | _ \<Rightarrow> Inl ([squote] @ py_type_name x @ [squote] @ '' object has no attribute ''
                   @ [squote] @ ''get'' @ [squote]))"

text \<open>
  \<open>json.dumps(x)\<close> with its defaults: separators \<open>", "\<close> and \<open>": "\<close>, and every
  character outside the printable ASCII range escaped.
\<close>

definition json_escape_char :: "char \<Rightarrow> string" where
  "json_escape_char c =
     (let n = (of_char c :: nat) in
      if c = dquote \<or> c = backslash then [backslash, c]
      else if n = 10 then [backslash, CHR ''n'']
      else if n = 13 then [backslash, CHR ''r'']
      else if n = 9 then [backslash, CHR ''t'']
      else if n = 12 then [backslash, CHR ''f'']
      else if n = 8 then [backslash, CHR ''b'']
      else if n < 32 \<or> 126 < n then [backslash, CHR ''u'', CHR ''0'', CHR ''0''] @ hex2 n
      else [c])"

definition json_string :: "string \<Rightarrow> string" where
  "json_string s = [dquote] @ concat (map json_escape_char s) @ [dquote]"

definition json_float :: "string \<Rightarrow> string" where
  "json_float r =
     (if r = ''nan'' then ''NaN'' else if r = ''inf'' then ''Infinity''
      else if r = ''-inf'' then ''-Infinity'' else r)"

fun json_dumps :: "pyval \<Rightarrow> string" where
  "json_dumps PNone = ''null''"
| "json_dumps (PBool b) = (if b then ''true'' else ''false'')"
| "json_dumps (PInt n) = py_str_int n"
| "json_dumps (PFloat r) = json_float r"
| "json_dumps (PStr s) = json_string s"
| "json_dumps (PList xs) = ''['' @ join_with '', '' (map json_dumps xs) @ '']''"
| "json_dumps (PDict kvs) =
     ''{'' @ join_with '', '' (map (\<lambda>kv. json_string (fst kv) @ '': '' @ json_dumps (snd kv)) kvs) @ ''}''"

section \<open>The clock and \<open>strftime\<close>\<close>

text \<open>
  \<open>datetime.utcnow()\<close> returns the fields of the current UTC time. The week day is
  not a field: \<open>strftime\<close> derives it from the proleptic Gregorian ordinal of the date,
  Monday being 0.
\<close>

record datetime =
  dt_year :: nat
  dt_month :: nat
  dt_day :: nat
  dt_hour :: nat
  dt_minute :: nat
  dt_second :: nat

definition is_leap :: "nat \<Rightarrow> bool" where
  "is_leap y = (y mod 4 = 0 \<and> (y mod 100 \<noteq> 0 \<or> y mod 400 = 0))"

definition days_in_month :: "nat \<Rightarrow> nat \<Rightarrow> nat" where
  "days_in_month y m =
     (if m = 2 \<and> is_leap y then 29 else [31, 28, 31, 30, 31, 30, 31, 31, 30, 31, 30, 31] ! (m - 1))"

definition days_before_year :: "nat \<Rightarrow> nat" where
  "days_before_year y = (y - 1) * 365 + (y - 1) div 4 - (y - 1) div 100 + (y - 1) div 400"

definition days_before_month :: "nat \<Rightarrow> nat \<Rightarrow> nat" where
  "days_before_month y m =
     [0, 31, 59, 90, 120, 151, 181, 212, 243, 273, 304, 334] ! (m - 1)
       + (if 2 < m \<and> is_leap y then 1 else 0)"

definition ymd2ord :: "nat \<Rightarrow> nat \<Rightarrow> nat \<Rightarrow> nat" where
  "ymd2ord y m d = days_before_year y + days_before_month y m + d"

definition weekday :: "datetime \<Rightarrow> nat" where
  "weekday t = (ymd2ord (dt_year t) (dt_month t) (dt_day t) + 6) mod 7"

text \<open>The values \<open>utcnow\<close> can return: a date of the calendar and a time of day.\<close>

definition valid_datetime :: "datetime \<Rightarrow> bool" where
  "valid_datetime t =
     (1 \<le> dt_year t \<and> dt_year t \<le> 9999 \<and> 1 \<le> dt_month t \<and> dt_month t \<le> 12
      \<and> 1 \<le> dt_day t \<and> dt_day t \<le> days_in_month (dt_year t) (dt_month t)
      \<and> dt_hour t < 24 \<and> dt_minute t < 60 \<and> dt_second t < 60)"

definition day_abbr :: "nat \<Rightarrow> string" where
  "day_abbr w = [''Mon'', ''Tue'', ''Wed'', ''Thu'', ''Fri'', ''Sat'', ''Sun''] ! w"

definition month_abbr :: "nat \<Rightarrow> string" where
  "month_abbr m =
     [''Jan'', ''Feb'', ''Mar'', ''Apr'', ''May'', ''Jun'',
      ''Jul'', ''Aug'', ''Sep'', ''Oct'', ''Nov'', ''Dec''] ! (m - 1)"

text \<open>A number zero-padded to two places, as the directives \<open>%d %H %M %S\<close> write it.\<close>

definition pad2 :: "nat \<Rightarrow> string" where
  "pad2 n = (if n < 10 then CHR ''0'' # dec_nat n else dec_nat n)"

text \<open>
  The directives the script uses, in the C locale. \<open>%Y\<close> writes the year in decimal; any
  other directive is left as it stands.
\<close>

definition directive :: "char \<Rightarrow> datetime \<Rightarrow> string" where
  "directive d t =
     (if d = CHR ''a'' then day_abbr (weekday t)
      else if d = CHR ''d'' then pad2 (dt_day t)
      else if d = CHR ''b'' then month_abbr (dt_month t)
      else if d = CHR ''Y'' then dec_nat (dt_year t)
      else if d = CHR ''H'' then pad2 (dt_hour t)
      else if d = CHR ''M'' then pad2 (dt_minute t)
      else if d = CHR ''S'' then pad2 (dt_second t)
      else [CHR ''%'', d])"

fun strftime :: "string \<Rightarrow> datetime \<Rightarrow> string" where
  "strftime [] t = []"
| "strftime [c] t = [c]"
| "strftime (c # d # rest) t =
     (if c = CHR ''%'' then directive d t @ strftime rest t else c # strftime (d # rest) t)"

text \<open>
  The date of RFC 1123, as the specification names the format: day name, comma, two-digit
  day, month name, four-digit year, \<open>hh:mm:ss\<close> and the zone \<open>GMT\<close>, separated by
  single spaces.
\<close>

definition two_digits :: "nat \<Rightarrow> string" where
  "two_digits n = [digit_char (n div 10), digit_char (n mod 10)]"

definition four_digits :: "nat \<Rightarrow> string" where
  "four_digits n =
     [digit_char (n div 1000), digit_char (n div 100 mod 10), digit_char (n div 10 mod 10),
      digit_char (n mod 10)]"

definition rfc1123_date :: "datetime \<Rightarrow> string" where
  "rfc1123_date t =
     day_abbr (weekday t) @ '', '' @ two_digits (dt_day t) @ '' '' @ month_abbr (dt_month t)
       @ '' '' @ four_digits (dt_year t) @ '' '' @ two_digits (dt_hour t) @ '':''
       @ two_digits (dt_minute t) @ '':'' @ two_digits (dt_second t) @ '' GMT''"

section \<open>SHA-256, HMAC and Base64\<close>

text \<open>
  The signer calls \<open>hashlib.sha256\<close>, \<open>hmac.new\<close> and \<open>base64.b64encode\<close>. They are
  modelled after FIPS 180-4, RFC 2104 and RFC 4648. A byte is a natural number below
  256 and a 32-bit word one below \<open>2 ^ 32\<close>, with the wrap-around written out.
\<close>

text \<open>\<open>s.encode()\<close>: UTF-8, for code points below 256.\<close>

definition utf8_encode :: "string \<Rightarrow> nat list" where
  "utf8_encode s =
     concat (map (\<lambda>c. if (of_char c :: nat) < 128 then [of_char c]
                         else [192 + of_char c div 64, 128 + of_char c mod 64]) s)"

definition add32 :: "nat \<Rightarrow> nat \<Rightarrow> nat" where
  "add32 a b = (a + b) mod 4294967296"

definition rotr :: "nat \<Rightarrow> nat \<Rightarrow> nat" where
  "rotr n x = x div 2 ^ n + (x mod 2 ^ n) * 2 ^ (32 - n)"

definition shr :: "nat \<Rightarrow> nat \<Rightarrow> nat" where
  "shr n x = x div 2 ^ n"

definition sha_ch :: "nat \<Rightarrow> nat \<Rightarrow> nat \<Rightarrow> nat" where
  "sha_ch x y z = (x AND y) XOR ((4294967295 - x) AND z)"

definition sha_maj :: "nat \<Rightarrow> nat \<Rightarrow> nat \<Rightarrow> nat" where
  "sha_maj x y z = (x AND y) XOR (x AND z) XOR (y AND z)"

definition big_sigma0 :: "nat \<Rightarrow> nat" where
  "big_sigma0 x = rotr 2 x XOR rotr 13 x XOR rotr 22 x"

definition big_sigma1 :: "nat \<Rightarrow> nat" where
  "big_sigma1 x = rotr 6 x XOR rotr 11 x XOR rotr 25 x"

definition small_sigma0 :: "nat \<Rightarrow> nat" where
  "small_sigma0 x = rotr 7 x XOR rotr 18 x XOR shr 3 x"

definition small_sigma1 :: "nat \<Rightarrow> nat" where
  "small_sigma1 x = rotr 17 x XOR rotr 19 x XOR shr 10 x"

text \<open>
  The round constants of FIPS 180-4, section 4.2.2 (the first 32 bits of the fractional parts
  of the cube roots of the first 64 primes), written in decimal.
\<close>

definition sha256_k :: "nat list" where
  "sha256_k =
    [1116352408, 1899447441, 3049323471, 3921009573, 961987163, 1508970993,
     2453635748, 2870763221, 3624381080, 310598401, 607225278, 1426881987,
     1925078388, 2162078206, 2614888103, 3248222580, 3835390401, 4022224774,
     264347078, 604807628, 770255983, 1249150122, 1555081692, 1996064986,
     2554220882, 2821834349, 2952996808, 3210313671, 3336571891, 3584528711,
     113926993, 338241895, 666307205, 773529912, 1294757372, 1396182291,
     1695183700, 1986661051, 2177026350, 2456956037, 2730485921, 2820302411,
     3259730800, 3345764771, 3516065817, 3600352804, 4094571909, 275423344,
     430227734, 506948616, 659060556, 883997877, 958139571, 1322822218,
     1537002063, 1747873779, 1955562222, 2024104815, 2227730452, 2361852424,
     2428436474, 2756734187, 3204031479, 3329325298]"

type_synonym sha_state = "nat \<times> nat \<times> nat \<times> nat \<times> nat \<times> nat \<times> nat \<times> nat"

text \<open>The initial hash value of FIPS 180-4, section 5.3.3.\<close>

definition sha256_h0 :: sha_state where
  "sha256_h0 =
     (1779033703, 3144134277, 1013904242, 2773480762,
      1359893119, 2600822924, 528734635, 1541459225)"

text \<open>The sixteen big-endian words of a block.\<close>

fun be_words :: "nat list \<Rightarrow> nat list" where
  "be_words (a # b # c # d # rest) = (((a * 256 + b) * 256 + c) * 256 + d) # be_words rest"
| "be_words _ = []"

text \<open>
  The message schedule, newest word first: the next word is made of the words 2, 7, 15 and
  16 places back.
\<close>

definition schedule_step :: "nat list \<Rightarrow> nat" where
  "schedule_step w =
     add32 (add32 (small_sigma1 (w ! 1)) (w ! 6)) (add32 (small_sigma0 (w ! 14)) (w ! 15))"

definition schedule :: "nat list \<Rightarrow> nat list" where
  "schedule w16 = rev (fold (\<lambda>t w. schedule_step w # w) [16..<64] (rev w16))"

fun sha_round :: "sha_state \<Rightarrow> nat \<times> nat \<Rightarrow> sha_state" where
  "sha_round (a, b, c, d, e, f, g, h) (k, w) =
     (let t1 = add32 (add32 (add32 h (big_sigma1 e)) (add32 (sha_ch e f g) k)) w;
          t2 = add32 (big_sigma0 a) (sha_maj a b c)
      in (add32 t1 t2, a, b, c, add32 d t1, e, f, g))"

fun add_state :: "sha_state \<Rightarrow> sha_state \<Rightarrow> sha_state" where
  "add_state (a, b, c, d, e, f, g, h) (a', b', c', d', e', f', g', h') =
     (add32 a a', add32 b b', add32 c c', add32 d d',
      add32 e e', add32 f f', add32 g g', add32 h h')"

definition compress :: "sha_state \<Rightarrow> nat list \<Rightarrow> sha_state" where
  "compress hs block =
     add_state hs (foldl sha_round hs (zip sha256_k (schedule (be_words block))))"

primrec bit_length :: "nat list \<Rightarrow> nat" where
  "bit_length [] = 0"
| "bit_length (x # xs) = bit_length xs + 8"

definition be_bytes :: "nat list \<Rightarrow> nat \<Rightarrow> nat list" where
  "be_bytes shifts n = map (\<lambda>i. (n div 2 ^ i) mod 256) shifts"

text \<open>
  Padding: the byte \<open>0x80\<close>, then zero bytes up to 8 short of a multiple of 64, then the
  length in bits as 8 bytes.
\<close>

definition sha_pad :: "nat list \<Rightarrow> nat list" where
  "sha_pad m =
     m @ [0x80] @ replicate ((952 - bit_length m mod 512) mod 512 div 8) 0
       @ be_bytes [56, 48, 40, 32, 24, 16, 8, 0] (bit_length m)"

fun sha_blocks :: "sha_state \<Rightarrow> nat list \<Rightarrow> sha_state" where
  "sha_blocks hs [] = hs"
| "sha_blocks hs (x # xs) = sha_blocks (compress hs (take 64 (x # xs))) (drop 64 (x # xs))"

fun state_bytes :: "sha_state \<Rightarrow> nat list" where
  "state_bytes (a, b, c, d, e, f, g, h) =
     concat (map (be_bytes [24, 16, 8, 0]) [a, b, c, d, e, f, g, h])"

definition sha256 :: "nat list \<Rightarrow> nat list" where
  "sha256 m = state_bytes (sha_blocks sha256_h0 (sha_pad m))"

text \<open>
  \<open>hmac.new(key, msg, hashlib.sha256).digest()\<close>: a key longer than the block of 64
  bytes is hashed first, a shorter one is filled with zero bytes.
\<close>

definition hmac_key :: "nat list \<Rightarrow> nat list" where
  "hmac_key key = take 64 ((if 512 < bit_length key then sha256 key else key) @ replicate 64 0)"

definition hmac_sha256 :: "nat list \<Rightarrow> nat list \<Rightarrow> nat list" where
  "hmac_sha256 key msg =
     sha256 (map (\<lambda>b. b XOR 0x5c) (hmac_key key)
             @ sha256 (map (\<lambda>b. b XOR 0x36) (hmac_key key) @ msg))"

definition b64_alphabet :: string where
  "b64_alphabet = ''ABCDEFGHIJKLMNOPQRSTUVWXYZabcdefghijklmnopqrstuvwxyz0123456789+/''"

text \<open>\<open>base64.b64encode(bs).decode()\<close>.\<close>

fun b64encode :: "nat list \<Rightarrow> string" where
  "b64encode (a # b # c # rest) =
     [b64_alphabet ! (a div 4), b64_alphabet ! ((a mod 4) * 16 + b div 16),
      b64_alphabet ! ((b mod 16) * 4 + c div 64), b64_alphabet ! (c mod 64)] @ b64encode rest"
| "b64encode [a, b] =
     [b64_alphabet ! (a div 4), b64_alphabet ! ((a mod 4) * 16 + b div 16),
      b64_alphabet ! ((b mod 16) * 4), CHR ''='']"
| "b64encode [a] =
     [b64_alphabet ! (a div 4), b64_alphabet ! ((a mod 4) * 16), CHR ''='', CHR ''='']"
| "b64encode [] = []"

section \<open>The world outside the script\<close>

text \<open>
  What the script does to the world is recorded as a trace of events, oldest first: clock
  readings, HTTP requests, sleeps and the calls on the dashboard. What the world answers is
  an environment: the clock, the two calls of the \<open>requests\<close> library, and the order in
  which a two-element set of strings is iterated. Each answer may depend on everything
  that happened before, so an environment stands for one arbitrary behaviour of the network
  and the clock.

  An HTTP call either raises (the left summand carries \<open>str(e)\<close> of the exception) or
  returns a response; \<open>r.json()\<close> in turn either raises or returns the parsed body.
\<close>

type_synonym headers = "(string \<times> string) list"

datatype event =
    EvUtcnow
  | EvPost string pyval headers nat
  | EvGet string headers nat
  | EvSleep rat
  | EvError string
  | EvInfo string
  | EvStatus string
  | EvDone
  | EvProgress nat nat

type_synonym trace = "event list"

record response =
  resp_status_code :: int
  resp_text :: string
  resp_json :: "string + pyval"

record env =
  utcnow :: "trace \<Rightarrow> datetime"
  requests_post :: "trace \<Rightarrow> string \<Rightarrow> pyval \<Rightarrow> headers \<Rightarrow> string + response"
  requests_get :: "trace \<Rightarrow> string \<Rightarrow> headers \<Rightarrow> string + response"
  to_number_first :: bool

section \<open>The script\<close>

definition API_BASE :: string where
  "API_BASE = ''https://api.mekari.com''"

subsection \<open>\<open>generate_auth_headers\<close>\<close>

definition request_line :: "string \<Rightarrow> string \<Rightarrow> string" where
  "request_line http_method url_path = http_method @ '' '' @ url_path @ '' HTTP/1.1''"

definition string_to_sign :: "string \<Rightarrow> string \<Rightarrow> string \<Rightarrow> string" where
  "string_to_sign date_string http_method url_path =
     ''date: '' @ date_string @ [newline] @ request_line http_method url_path"

definition signature :: "string \<Rightarrow> string \<Rightarrow> string" where
  "signature secret to_sign = b64encode (hmac_sha256 (utf8_encode secret) (utf8_encode to_sign))"

definition auth_headers :: "datetime \<Rightarrow> string \<Rightarrow> string \<Rightarrow> string \<Rightarrow> string \<Rightarrow> headers" where
  "auth_headers now http_method url_path cid secret =
     (let date_string = strftime ''%a, %d %b %Y %H:%M:%S GMT'' now
      in [(''Authorization'',
           ''hmac username='' @ [dquote] @ cid @ [dquote] @ '', algorithm='' @ [dquote]
             @ ''hmac-sha256'' @ [dquote] @ '', headers='' @ [dquote] @ ''date request-line''
             @ [dquote] @ '', signature='' @ [dquote]
             @ signature secret (string_to_sign date_string http_method url_path) @ [dquote]),
          (''Date'', date_string),
          (''Content-Type'', ''application/json'')])"

definition generate_auth_headers ::
  "env \<Rightarrow> string \<Rightarrow> string \<Rightarrow> string \<Rightarrow> string \<Rightarrow> trace \<Rightarrow> headers \<times> trace" where
  "generate_auth_headers world http_method url_path cid secret tr =
     (auth_headers (utcnow world tr) http_method url_path cid secret, tr @ [EvUtcnow])"

subsection \<open>\<open>validate_dataframe\<close>\<close>

text \<open>
  A data frame: its column labels and its rows of cells. \<open>to_dict(orient="records")\<close>
  turns each row into a dict keyed by the labels; with a repeated label the last cell wins.
\<close>

record dataframe =
  columns :: "string list"
  records :: "pyval list list"

definition dict_of_items :: "(string \<times> pyval) list \<Rightarrow> pydict" where
  "dict_of_items kvs = foldl (\<lambda>d kv. dict_set d (fst kv) (snd kv)) [] kvs"

definition to_dict_records :: "dataframe \<Rightarrow> pydict list" where
  "to_dict_records df = map (\<lambda>r. dict_of_items (zip (columns df) r)) (records df)"

definition head_df :: "dataframe \<Rightarrow> nat \<Rightarrow> dataframe" where
  "head_df df n = df\<lparr>records := take n (records df)\<rparr>"

text \<open>
  \<open>required\<close> is a set literal; the order in which the comprehension visits its two
  elements is the environment's.
\<close>

definition required :: "env \<Rightarrow> string list" where
  "required world =
     (if to_number_first world then [''to_number'', ''to_name''] else [''to_name'', ''to_number''])"

definition validate_dataframe :: "env \<Rightarrow> dataframe \<Rightarrow> bool \<times> string list" where
  "validate_dataframe world df =
     (let missing = filter (\<lambda>c. c \<notin> set (columns df)) (required world)
      in (length missing = 0, missing))"

subsection \<open>\<open>send_whatsapp\<close>\<close>

record result =
  to_number :: string
  to_name :: string
  status_code :: "int option"
  broadcast_id :: pyval
  send_response :: "string option"
  log_status_code :: "int option"
  log_response :: "string option"
  error :: "string option"

text \<open>
  The payload of one recipient. \<open>image_url\<close> and \<open>image_filename\<close> are \<open>str | None\<close>;
  the header block is added under \<open>parameters\<close> when \<open>image_url\<close> is neither \<open>None\<close>
  nor empty.
\<close>

definition header_block :: "string \<Rightarrow> string option \<Rightarrow> pyval" where
  "header_block url image_filename =
     PDict [(''format'', PStr ''IMAGE''),
            (''params'',
             PList [PDict [(''key'', PStr ''url''), (''value'', PStr url)],
                    PDict [(''key'', PStr ''filename''),
                           (''value'', PStr (case image_filename of
                                               None \<Rightarrow> ''banner.jpg''
                                             | Some f \<Rightarrow> if f \<noteq> [] then f else ''banner.jpg''))]])]"

definition set_parameter :: "pyval \<Rightarrow> string \<Rightarrow> pyval \<Rightarrow> pyval" where
  "set_parameter payload k v =
     (case payload of
        PDict d \<Rightarrow>
          (case dict_get d ''parameters'' PNone of
             PDict p \<Rightarrow> PDict (dict_set d ''parameters'' (PDict (dict_set p k v)))
           | _ \<Rightarrow> payload)
      | _ \<Rightarrow> payload)"

definition build_payload ::
  "string \<Rightarrow> string \<Rightarrow> string \<Rightarrow> string \<Rightarrow> string option \<Rightarrow> string option \<Rightarrow> pyval" where
  "build_payload number name template channel image_url image_filename =
     (let payload = PDict [(''to_number'', PStr number),
                           (''to_name'', PStr name),
                           (''message_template_id'', PStr template),
                           (''channel_integration_id'', PStr channel),
                           (''language'', PDict [(''code'', PStr ''id'')]),
                           (''parameters'', PDict [(''body'', PList [])])]
      in case image_url of
           None \<Rightarrow> payload
         | Some url \<Rightarrow>
             if url \<noteq> [] then set_parameter payload ''header'' (header_block url image_filename)
             else payload)"

text \<open>The two URL paths, and \<open>data.get("data", {}).get("id")\<close> on a parsed body.\<close>

definition post_url_path :: string where
  "post_url_path = ''/qontak/chat/v1/broadcasts/whatsapp/direct''"

definition get_url_path :: "pyval \<Rightarrow> string" where
  "get_url_path bid = ''/qontak/chat/v1/broadcasts/'' @ py_str bid @ ''/whatsapp/log''"

definition extract_id :: "pyval \<Rightarrow> string + pyval" where
  "extract_id data =
     (case py_get data ''data'' (PDict []) of
        Inl e \<Rightarrow> Inl e
      | Inr inner \<Rightarrow> py_get inner ''id'' PNone)"

text \<open>
  The body of the \<open>try\<close> statement, the log fetch first. It returns the exception that
  left it, if any, together with the result dict and the trace as they were at that moment.
\<close>

definition fetch_log ::
  "env \<Rightarrow> string \<Rightarrow> string \<Rightarrow> rat \<Rightarrow> pyval \<Rightarrow> result \<Rightarrow> trace \<Rightarrow> string option \<times> result \<times> trace" where
  "fetch_log world cid secret sleep_after_seconds bid res tr =
     (let tr1 = tr @ [EvSleep (max 0 sleep_after_seconds)];
          get_api_url = API_BASE @ get_url_path bid;
          (headers_get, tr2) = generate_auth_headers world ''GET'' (get_url_path bid) cid secret tr1;
          tr3 = tr2 @ [EvGet get_api_url headers_get 60]
      in case requests_get world tr2 get_api_url headers_get of
           Inl e \<Rightarrow> (Some e, res, tr3)
         | Inr r_get \<Rightarrow>
             (None,
              res\<lparr>log_status_code := Some (resp_status_code r_get),
                  log_response := Some (resp_text r_get)\<rparr>,
              tr3))"

definition try_body ::
  "env \<Rightarrow> string \<Rightarrow> string \<Rightarrow> rat \<Rightarrow> string \<Rightarrow> pyval \<Rightarrow> headers \<Rightarrow> result \<Rightarrow> trace
     \<Rightarrow> string option \<times> result \<times> trace" where
  "try_body world cid secret sleep_after_seconds post_api_url payload headers_post res tr =
     (let tr1 = tr @ [EvPost post_api_url payload headers_post 60]
      in case requests_post world tr post_api_url payload headers_post of
           Inl e \<Rightarrow> (Some e, res, tr1)
         | Inr r_post \<Rightarrow>
             (let res1 = res\<lparr>status_code := Some (resp_status_code r_post),
                              send_response := Some (resp_text r_post)\<rparr>
              in if resp_status_code r_post \<in> {200, 201, 202}
                 then (case resp_json r_post of
                         Inl e \<Rightarrow> (Some e, res1, tr1)
                       | Inr data \<Rightarrow>
                           (case extract_id data of
                              Inl e \<Rightarrow> (Some e, res1, tr1)
                            | Inr bid \<Rightarrow>
                                (let res2 = res1\<lparr>broadcast_id := bid\<rparr>
                                 in if py_truthy bid
                                    then fetch_log world cid secret sleep_after_seconds bid res2 tr1
                                    else (None, res2, tr1))))
                 else (let err = (case resp_json r_post of
                                    Inl e \<Rightarrow> PDict [(''raw'', PStr (resp_text r_post))]
                                  | Inr j \<Rightarrow> j)
                       in (None, res1\<lparr>error := Some (json_dumps err)\<rparr>, tr1))))"

definition recipient_number :: "pydict \<Rightarrow> string" where
  "recipient_number row = py_strip (py_str (dict_get row ''to_number'' (PStr [])))"

definition recipient_name :: "pydict \<Rightarrow> string" where
  "recipient_name row = py_strip (py_str (dict_get row ''to_name'' (PStr [])))"

definition empty_result :: "string \<Rightarrow> string \<Rightarrow> result" where
  "empty_result number name =
     \<lparr>to_number = number, to_name = name, status_code = None, broadcast_id = PNone,
      send_response = None, log_status_code = None, log_response = None, error = None\<rparr>"

definition send_whatsapp ::
  "env \<Rightarrow> pydict \<Rightarrow> string \<Rightarrow> string \<Rightarrow> string option \<Rightarrow> string option \<Rightarrow> string \<Rightarrow> string
     \<Rightarrow> rat \<Rightarrow> trace \<Rightarrow> result \<times> trace" where
  "send_whatsapp world row template channel image_url image_filename cid secret
       sleep_after_seconds tr =
     (let number = recipient_number row;
          name = recipient_name row;
          post_api_url = API_BASE @ post_url_path;
          (headers_post, tr1) = generate_auth_headers world ''POST'' post_url_path cid secret tr;
          payload = build_payload number name template channel image_url image_filename;
          res = empty_result number name;
          (exc, res', tr') =
             try_body world cid secret sleep_after_seconds post_api_url payload headers_post res tr1
      in (case exc of None \<Rightarrow> res' | Some e \<Rightarrow> res'\<lparr>error := Some e\<rparr>, tr'))"

subsection \<open>The run started by the button\<close>

text \<open>
  The values the sidebar hands to the run. The media URL and file name are fixed in the
  script.
\<close>

record config =
  client_id :: string
  client_secret :: string
  template_id :: string
  channel_id :: string
  sleep_after_seconds :: rat
  max_rows :: int

definition image_url :: string where
  "image_url = ''https://raw.githubusercontent.com/christian-buku/Telesales-hot-leads-submitted-form-and-not-created-payment-link/refs/heads/main/banner.jpg''"

definition image_filename :: string where
  "image_filename = ''banner.jpg''"

definition strip_or_none :: "string \<Rightarrow> string option" where
  "strip_or_none s = (if s \<noteq> [] then Some (py_strip s) else None)"

definition sending_message :: "pydict \<Rightarrow> nat \<Rightarrow> nat \<Rightarrow> string" where
  "sending_message row i tot =
     ''Sending to **'' @ py_str (dict_get row ''to_name'' (PStr [])) @ ''** (''
       @ py_str (dict_get row ''to_number'' (PStr [])) @ '') ['' @ dec_nat i @ ''/''
       @ dec_nat tot @ ''] ...''"

text \<open>
  The \<open>for\<close> loop over the records, \<open>i\<close> counting from 1. \<open>EvProgress i tot\<close> (\<open>tot\<close> being the script's \<open>total\<close>) stands
  for \<open>progress.progress(i / tot)\<close>.
\<close>

fun batch_loop ::
  "env \<Rightarrow> config \<Rightarrow> nat \<Rightarrow> nat \<Rightarrow> pydict list \<Rightarrow> result list \<Rightarrow> trace \<Rightarrow> result list \<times> trace" where
  "batch_loop world cfg tot i [] results tr = (results, tr)"
| "batch_loop world cfg tot i (row # rows) results tr =
     (let tr1 = tr @ [EvStatus (sending_message row i tot)];
          (res, tr2) =
             send_whatsapp world row (template_id cfg) (channel_id cfg)
               (strip_or_none image_url) (strip_or_none image_filename)
               (client_id cfg) (client_secret cfg) (sleep_after_seconds cfg) tr1
      in batch_loop world cfg tot (Suc i) rows (results @ [res]) (tr2 @ [EvProgress i tot]))"

text \<open>
  The block under \<open>if run_clicked:\<close>, up to the end of the loop. \<open>st.stop()\<close> ends the
  run: the outcome is then \<open>None\<close>, and otherwise the list \<open>results\<close>.
\<close>

definition credentials_message :: string where
  "credentials_message =
     ''Client/Template/Channel credentials are missing. Provide them in the sidebar.''"

definition starting_message :: string where
  "starting_message =
     ''Starting broadcast... Do not close the tab until finished. Make sure your template is approved and parameters (if any) match.''"

definition capped_df :: "config \<Rightarrow> dataframe \<Rightarrow> dataframe" where
  "capped_df cfg df =
     (if max_rows cfg \<noteq> 0 \<and> max_rows cfg > 0 then head_df df (nat (max_rows cfg)) else df)"

definition run_clicked :: "env \<Rightarrow> config \<Rightarrow> dataframe \<Rightarrow> trace \<Rightarrow> result list option \<times> trace" where
  "run_clicked world cfg df tr =
     (if \<not> (client_id cfg \<noteq> [] \<and> client_secret cfg \<noteq> [] \<and> template_id cfg \<noteq> []
             \<and> channel_id cfg \<noteq> [])
      then (None, tr @ [EvError credentials_message])
      else (let (ok, missing) = validate_dataframe world df
            in if \<not> ok
               then (None, tr @ [EvError (''Missing required columns: '' @ join_with '', '' missing)])
               else (let df' = capped_df cfg df;
                         tr1 = tr @ [EvInfo starting_message];
                         tot = length (records df');
                         (results, tr2) = batch_loop world cfg tot 1 (to_dict_records df') [] tr1
                     in (Some results, tr2 @ [EvDone]))))"

section \<open>Vocabulary of the statements\<close>

text \<open>
  The request one call of \<open>send_whatsapp\<close> posts when it starts at trace \<open>tr\<close>, and the
  answer of the world to it. The headers are signed at the clock reading taken at \<open>tr\<close>.
\<close>

definition post_event ::
  "env \<Rightarrow> pydict \<Rightarrow> string \<Rightarrow> string \<Rightarrow> string option \<Rightarrow> string option \<Rightarrow> string \<Rightarrow> string
     \<Rightarrow> trace \<Rightarrow> event" where
  "post_event world row template channel url fname cid secret tr =
     EvPost (API_BASE @ post_url_path)
       (build_payload (recipient_number row) (recipient_name row) template channel url fname)
       (auth_headers (utcnow world tr) ''POST'' post_url_path cid secret) 60"

definition post_outcome ::
  "env \<Rightarrow> pydict \<Rightarrow> string \<Rightarrow> string \<Rightarrow> string option \<Rightarrow> string option \<Rightarrow> string \<Rightarrow> string
     \<Rightarrow> trace \<Rightarrow> string + response" where
  "post_outcome world row template channel url fname cid secret tr =
     requests_post world (tr @ [EvUtcnow]) (API_BASE @ post_url_path)
       (build_payload (recipient_number row) (recipient_name row) template channel url fname)
       (auth_headers (utcnow world tr) ''POST'' post_url_path cid secret)"

text \<open>
  The log request for the identifier \<open>bid\<close>, made when the trace is \<open>tr\<close> (the POST
  included), and the answer of the world to it.
\<close>

definition log_event :: "env \<Rightarrow> string \<Rightarrow> string \<Rightarrow> rat \<Rightarrow> pyval \<Rightarrow> trace \<Rightarrow> event" where
  "log_event world cid secret delay bid tr =
     EvGet (API_BASE @ get_url_path bid)
       (auth_headers (utcnow world (tr @ [EvSleep (max 0 delay)])) ''GET'' (get_url_path bid)
          cid secret) 60"

definition log_outcome ::
  "env \<Rightarrow> string \<Rightarrow> string \<Rightarrow> rat \<Rightarrow> pyval \<Rightarrow> trace \<Rightarrow> string + response" where
  "log_outcome world cid secret delay bid tr =
     requests_get world (tr @ [EvSleep (max 0 delay), EvUtcnow]) (API_BASE @ get_url_path bid)
       (auth_headers (utcnow world (tr @ [EvSleep (max 0 delay)])) ''GET'' (get_url_path bid)
          cid secret)"

text \<open>Kinds of events.\<close>

fun is_get :: "event \<Rightarrow> bool" where
  "is_get (EvGet u h t) = True"
| "is_get _ = False"

fun is_network :: "event \<Rightarrow> bool" where
  "is_network (EvGet u h t) = True"
| "is_network (EvPost u p h t) = True"
| "is_network _ = False"

fun is_error :: "event \<Rightarrow> bool" where
  "is_error (EvError m) = True"
| "is_error _ = False"

text \<open>The header block of a payload, if it has one.\<close>

definition payload_header :: "pyval \<Rightarrow> pyval option" where
  "payload_header payload =
     (case payload of
        PDict d \<Rightarrow> (case map_of d ''parameters'' of Some (PDict p) \<Rightarrow> map_of p ''header'' | _ \<Rightarrow> None)
      | _ \<Rightarrow> None)"

text \<open>
  A character \<open>json.dumps\<close> writes as it stands: printable ASCII other than the double
  quote and the backslash.
\<close>

definition json_plain :: "char \<Rightarrow> bool" where
  "json_plain c =
     (32 \<le> (of_char c :: nat) \<and> (of_char c :: nat) \<le> 126 \<and> c \<noteq> dquote \<and> c \<noteq> backslash)"

text \<open>One call of \<open>send_whatsapp\<close> as the loop makes it for a row.\<close>

definition send_row :: "env \<Rightarrow> config \<Rightarrow> pydict \<Rightarrow> trace \<Rightarrow> result \<times> trace" where
  "send_row world cfg row tr =
     send_whatsapp world row (template_id cfg) (channel_id cfg)
       (strip_or_none image_url) (strip_or_none image_filename)
       (client_id cfg) (client_secret cfg) (sleep_after_seconds cfg) tr"

text \<open>
  The trace at which the loop, started at trace \<open>tr\<close> with counter \<open>i\<close>, calls
  \<open>send_whatsapp\<close> for \<open>row\<close> once the rows \<open>before\<close> are done, and the trace with which
  it goes on to the next row.
\<close>

definition trace_at_send ::
  "env \<Rightarrow> config \<Rightarrow> nat \<Rightarrow> nat \<Rightarrow> pydict list \<Rightarrow> pydict \<Rightarrow> trace \<Rightarrow> trace" where
  "trace_at_send world cfg tot i before row tr =
     snd (batch_loop world cfg tot i before [] tr)
       @ [EvStatus (sending_message row (i + length before) tot)]"

definition trace_after_send ::
  "env \<Rightarrow> config \<Rightarrow> nat \<Rightarrow> nat \<Rightarrow> pydict list \<Rightarrow> pydict \<Rightarrow> trace \<Rightarrow> trace" where
  "trace_after_send world cfg tot i before row tr =
     snd (send_row world cfg row (trace_at_send world cfg tot i before row tr))
       @ [EvProgress (i + length before) tot]"

section \<open>A sample world\<close>

text \<open>
  A clock that stands still and a server that answers by the number of the recipient:
  accepted with an identifier, rejected with status 422, a transport failure, a success
  page that is not JSON, an accepted message whose log cannot be fetched, and a server error
  with a plain-text body.
\<close>

definition sample_now :: datetime where
  "sample_now = \<lparr>dt_year = 2024, dt_month = 2, dt_day = 29, dt_hour = 23, dt_minute = 59,
                  dt_second = 9\<rparr>"

definition accepted :: "int \<Rightarrow> string \<Rightarrow> response" where
  \<open>accepted code bid =
     \<lparr>resp_status_code = code,
      resp_text = ''{"data":{"id":"'' @ bid @ ''"}}'',
      resp_json = Inr (PDict [(''data'', PDict [(''id'', PStr bid)])])\<rparr>\<close>

definition rejected :: response where
  \<open>rejected =
     \<lparr>resp_status_code = 422,
      resp_text = ''{"error":"invalid number"}'',
      resp_json = Inr (PDict [(''error'', PStr ''invalid number'')])\<rparr>\<close>

definition not_json :: "int \<Rightarrow> string \<Rightarrow> response" where
  "not_json code body =
     \<lparr>resp_status_code = code, resp_text = body,
      resp_json = Inl ''Expecting value: line 1 column 1 (char 0)''\<rparr>"

definition sample_post :: "trace \<Rightarrow> string \<Rightarrow> pyval \<Rightarrow> headers \<Rightarrow> string + response" where
  "sample_post tr url payload hs =
     (case payload of
        PDict d \<Rightarrow>
          (case dict_get d ''to_number'' PNone of
             PStr n \<Rightarrow>
               if n = ''6281000001'' then Inr (accepted 200 ''bc_123'')
               else if n = ''6281000002'' then Inr rejected
               else if n = ''6281000003'' then Inr (accepted 201 ''bc_456'')
               else if n = ''6281000004'' then Inl ''Read timed out.''
               else if n = ''6281000005'' then Inr (not_json 200 ''<html>ok</html>'')
               else if n = ''6281000006'' then Inr (accepted 202 ''bc_789'')
               else Inr (not_json 500 ''Internal Server Error'')
           | _ \<Rightarrow> Inl ''No connection adapters were found'')
      | _ \<Rightarrow> Inl ''No connection adapters were found'')"

definition sample_get :: "trace \<Rightarrow> string \<Rightarrow> headers \<Rightarrow> string + response" where
  \<open>sample_get tr url hs =
     (if url = ''https://api.mekari.com/qontak/chat/v1/broadcasts/bc_789/whatsapp/log''
      then Inl ''Read timed out.''
      else Inr \<lparr>resp_status_code = 200, resp_text = ''{"status":"success"}'',
                resp_json = Inr (PDict [(''status'', PStr ''success'')])\<rparr>)\<close>

definition sample_world :: env where
  "sample_world =
     \<lparr>utcnow = (\<lambda>tr. sample_now), requests_post = sample_post, requests_get = sample_get,
      to_number_first = True\<rparr>"

definition sample_cfg :: config where
  "sample_cfg =
     \<lparr>client_id = ''client'', client_secret = ''secret'', template_id = ''tpl'',
      channel_id = ''chan'', sleep_after_seconds = 0, max_rows = 0\<rparr>"

definition sample_row :: "string \<Rightarrow> string \<Rightarrow> pydict" where
  "sample_row number name = [(''to_number'', PStr number), (''to_name'', PStr name)]"

definition sample_df :: dataframe where
  "sample_df =
     \<lparr>columns = [''to_number'', ''to_name''],
      records = [[PInt 6281000001, PStr ''Ani''], [PInt 6281000002, PStr '' Budi ''],
                 [PInt 6281000003, PStr ''Citra'']]\<rparr>"

section \<open>Lemmas about one send and about the loop\<close>

lemmas send_defs = send_whatsapp_def try_body_def fetch_log_def generate_auth_headers_def
  post_outcome_def post_event_def log_outcome_def log_event_def Let_def

lemma send_post_raises:
  assumes "post_outcome world row template channel url fname cid secret tr = Inl e"
  shows "send_whatsapp world row template channel url fname cid secret delay tr =
    ((empty_result (recipient_number row) (recipient_name row))\<lparr>error := Some e\<rparr>,
     tr @ [EvUtcnow, post_event world row template channel url fname cid secret tr])"
  using assms by (simp add: send_defs)

lemma send_rejected:
  assumes "post_outcome world row template channel url fname cid secret tr = Inr r"
    and "resp_status_code r \<notin> {200, 201, 202}"
  shows "send_whatsapp world row template channel url fname cid secret delay tr =
    ((empty_result (recipient_number row) (recipient_name row))
       \<lparr>status_code := Some (resp_status_code r), send_response := Some (resp_text r),
        error := Some (json_dumps (case resp_json r of
                                     Inl e \<Rightarrow> PDict [(''raw'', PStr (resp_text r))]
                                   | Inr j \<Rightarrow> j))\<rparr>,
     tr @ [EvUtcnow, post_event world row template channel url fname cid secret tr])"
  using assms by (simp add: send_defs)

lemma send_body_raises:
  assumes "post_outcome world row template channel url fname cid secret tr = Inr r"
    and "resp_status_code r \<in> {200, 201, 202}"
    and "resp_json r = Inl e"
  shows "send_whatsapp world row template channel url fname cid secret delay tr =
    ((empty_result (recipient_number row) (recipient_name row))
       \<lparr>status_code := Some (resp_status_code r), send_response := Some (resp_text r),
        error := Some e\<rparr>,
     tr @ [EvUtcnow, post_event world row template channel url fname cid secret tr])"
  using assms by (auto simp add: send_defs)

lemma send_id_raises:
  assumes "post_outcome world row template channel url fname cid secret tr = Inr r"
    and "resp_status_code r \<in> {200, 201, 202}"
    and "resp_json r = Inr data"
    and "extract_id data = Inl e"
  shows "send_whatsapp world row template channel url fname cid secret delay tr =
    ((empty_result (recipient_number row) (recipient_name row))
       \<lparr>status_code := Some (resp_status_code r), send_response := Some (resp_text r),
        error := Some e\<rparr>,
     tr @ [EvUtcnow, post_event world row template channel url fname cid secret tr])"
  using assms by (auto simp add: send_defs)

lemma send_no_id:
  assumes "post_outcome world row template channel url fname cid secret tr = Inr r"
    and "resp_status_code r \<in> {200, 201, 202}"
    and "resp_json r = Inr data"
    and "extract_id data = Inr bid"
    and "\<not> py_truthy bid"
  shows "send_whatsapp world row template channel url fname cid secret delay tr =
    ((empty_result (recipient_number row) (recipient_name row))
       \<lparr>status_code := Some (resp_status_code r), send_response := Some (resp_text r),
        broadcast_id := bid\<rparr>,
     tr @ [EvUtcnow, post_event world row template channel url fname cid secret tr])"
  using assms by (auto simp add: send_defs)

lemma send_log_raises:
  assumes "post_outcome world row template channel url fname cid secret tr = Inr r"
    and "resp_status_code r \<in> {200, 201, 202}"
    and "resp_json r = Inr data"
    and "extract_id data = Inr bid"
    and "py_truthy bid"
    and "log_outcome world cid secret delay bid
           (tr @ [EvUtcnow, post_event world row template channel url fname cid secret tr]) = Inl e"
  shows "send_whatsapp world row template channel url fname cid secret delay tr =
    ((empty_result (recipient_number row) (recipient_name row))
       \<lparr>status_code := Some (resp_status_code r), send_response := Some (resp_text r),
        broadcast_id := bid, error := Some e\<rparr>,
     tr @ [EvUtcnow, post_event world row template channel url fname cid secret tr,
           EvSleep (max 0 delay), EvUtcnow,
           log_event world cid secret delay bid
             (tr @ [EvUtcnow, post_event world row template channel url fname cid secret tr])])"
  using assms by (auto simp add: send_defs)

lemma send_logged:
  assumes "post_outcome world row template channel url fname cid secret tr = Inr r"
    and "resp_status_code r \<in> {200, 201, 202}"
    and "resp_json r = Inr data"
    and "extract_id data = Inr bid"
    and "py_truthy bid"
    and "log_outcome world cid secret delay bid
           (tr @ [EvUtcnow, post_event world row template channel url fname cid secret tr]) = Inr g"
  shows "send_whatsapp world row template channel url fname cid secret delay tr =
    ((empty_result (recipient_number row) (recipient_name row))
       \<lparr>status_code := Some (resp_status_code r), send_response := Some (resp_text r),
        broadcast_id := bid, log_status_code := Some (resp_status_code g),
        log_response := Some (resp_text g)\<rparr>,
     tr @ [EvUtcnow, post_event world row template channel url fname cid secret tr,
           EvSleep (max 0 delay), EvUtcnow,
           log_event world cid secret delay bid
             (tr @ [EvUtcnow, post_event world row template channel url fname cid secret tr])])"
  using assms by (auto simp add: send_defs)


lemma send_result_recipient:
  "to_number (fst (send_whatsapp world row template channel url fname cid secret delay tr))
     = recipient_number row
   \<and> to_name (fst (send_whatsapp world row template channel url fname cid secret delay tr))
     = recipient_name row"
  by (auto simp add: send_defs empty_result_def split: sum.splits prod.splits)

lemma send_trace:
  "\<exists>evs. snd (send_whatsapp world row template channel url fname cid secret delay tr) = tr @ evs
     \<and> filter is_error evs = []"
  by (auto simp add: send_defs split: sum.splits prod.splits)

lemma batch_loop_Cons:
  "batch_loop world cfg tot i (row # rows) acc tr =
     batch_loop world cfg tot (Suc i) rows
       (acc @ [fst (send_row world cfg row (tr @ [EvStatus (sending_message row i tot)]))])
       (snd (send_row world cfg row (tr @ [EvStatus (sending_message row i tot)]))
          @ [EvProgress i tot])"
  by (simp add: send_row_def split: prod.splits)

lemma batch_loop_acc:
  "batch_loop world cfg tot i rows acc tr =
     (acc @ fst (batch_loop world cfg tot i rows [] tr), snd (batch_loop world cfg tot i rows [] tr))"
proof (induction rows arbitrary: i acc tr)
  case Nil
  show ?case by simp
next
  case (Cons row rows)
  show ?case
    unfolding batch_loop_Cons
    by (subst Cons.IH, subst (2 3) Cons.IH) simp
qed

lemma batch_loop_append:
  "batch_loop world cfg tot i (xs @ ys) [] tr =
     (fst (batch_loop world cfg tot i xs [] tr)
        @ fst (batch_loop world cfg tot (i + length xs) ys [] (snd (batch_loop world cfg tot i xs [] tr))),
      snd (batch_loop world cfg tot (i + length xs) ys [] (snd (batch_loop world cfg tot i xs [] tr))))"
proof (induction xs arbitrary: i tr)
  case Nil
  show ?case by simp
next
  case (Cons x xs)
  show ?case
    unfolding append_Cons batch_loop_Cons
    by (subst batch_loop_acc, subst (2 3 4) batch_loop_acc) (simp add: Cons.IH)
qed

lemma batch_loop_length:
  "length (fst (batch_loop world cfg tot i rows [] tr)) = length rows"
proof (induction rows arbitrary: i tr)
  case Nil
  show ?case by simp
next
  case (Cons row rows)
  show ?case
    unfolding batch_loop_Cons by (subst batch_loop_acc) (simp add: Cons.IH)
qed

lemma batch_loop_nth:
  "fst (batch_loop world cfg tot i (rows1 @ row # rows2) [] tr) ! length rows1 =
     fst (send_row world cfg row
            (snd (batch_loop world cfg tot i rows1 [] tr)
               @ [EvStatus (sending_message row (i + length rows1) tot)]))"
proof -
  have "fst (batch_loop world cfg tot i (rows1 @ row # rows2) [] tr) ! length rows1 =
      fst (batch_loop world cfg tot (i + length rows1) (row # rows2) []
             (snd (batch_loop world cfg tot i rows1 [] tr))) ! 0"
    by (simp add: batch_loop_append nth_append batch_loop_length)
  also have "\<dots> = fst (send_row world cfg row
            (snd (batch_loop world cfg tot i rows1 [] tr)
               @ [EvStatus (sending_message row (i + length rows1) tot)]))"
    unfolding batch_loop_Cons by (subst batch_loop_acc) simp
  finally show ?thesis .
qed

lemma batch_loop_trace:
  "\<exists>evs. snd (batch_loop world cfg tot i rows acc tr) = tr @ evs \<and> filter is_error evs = []"
proof (induction rows arbitrary: i acc tr)
  case Nil
  show ?case by simp
next
  case (Cons row rows)
  define tr2 where "tr2 = snd (send_row world cfg row (tr @ [EvStatus (sending_message row i tot)]))"
  define res where "res = fst (send_row world cfg row (tr @ [EvStatus (sending_message row i tot)]))"
  obtain evs where a: "tr2 = (tr @ [EvStatus (sending_message row i tot)]) @ evs"
    "filter is_error evs = []"
    unfolding tr2_def send_row_def using send_trace by blast
  obtain evs' where b:
    "snd (batch_loop world cfg tot (Suc i) rows (acc @ [res]) (tr2 @ [EvProgress i tot]))
       = (tr2 @ [EvProgress i tot]) @ evs'" "filter is_error evs' = []"
    using Cons.IH by blast
  have "snd (batch_loop world cfg tot i (row # rows) acc tr) = (tr2 @ [EvProgress i tot]) @ evs'"
    unfolding batch_loop_Cons tr2_def [symmetric] res_def [symmetric] by (rule b(1))
  then have "snd (batch_loop world cfg tot i (row # rows) acc tr) =
      tr @ ([EvStatus (sending_message row i tot)] @ evs @ [EvProgress i tot] @ evs')"
    by (simp add: a(1))
  moreover have
    "filter is_error ([EvStatus (sending_message row i tot)] @ evs @ [EvProgress i tot] @ evs') = []"
    using a(2) b(2) by simp
  ultimately show ?case by blast
qed

lemma batch_loop_recipients:
  "map to_number (fst (batch_loop world cfg tot i rows [] tr)) = map recipient_number rows
   \<and> map to_name (fst (batch_loop world cfg tot i rows [] tr)) = map recipient_name rows"
proof (induction rows arbitrary: i tr)
  case Nil
  show ?case by simp
next
  case (Cons row rows)
  show ?case
    unfolding batch_loop_Cons
    by (subst batch_loop_acc, subst (2) batch_loop_acc)
       (simp add: Cons.IH send_row_def send_result_recipient)
qed


lemmas eval_defs =
  send_row_def send_whatsapp_def try_body_def fetch_log_def generate_auth_headers_def Let_def
  recipient_number_def recipient_name_def dict_get_def py_strip_def py_isspace_def
  py_str_int_def dec_nat.simps digit_char_def empty_result_def build_payload_def
  set_parameter_def header_block_def strip_or_none_def image_url_def image_filename_def
  API_BASE_def post_url_path_def get_url_path_def extract_id_def py_get_def
  json_string_def json_escape_char_def join_with_def dquote_def backslash_def squote_def
  sample_world_def sample_cfg_def sample_row_def sample_post_def sample_get_def
  accepted_def rejected_def not_json_def sample_df_def
  to_dict_records_def dict_of_items_def capped_df_def head_df_def validate_dataframe_def
  required_def run_clicked_def post_outcome_def post_event_def log_outcome_def log_event_def
  trace_at_send_def trace_after_send_def


lemma batch_loop_split:
  "fst (batch_loop world cfg tot i (before @ row # rest) [] tr) =
     fst (batch_loop world cfg tot i before [] tr)
       @ fst (send_row world cfg row (trace_at_send world cfg tot i before row tr))
       # fst (batch_loop world cfg tot (Suc (i + length before)) rest []
               (trace_after_send world cfg tot i before row tr))"
proof -
  have "fst (batch_loop world cfg tot (i + length before) (row # rest) []
               (snd (batch_loop world cfg tot i before [] tr))) =
      fst (send_row world cfg row (trace_at_send world cfg tot i before row tr))
        # fst (batch_loop world cfg tot (Suc (i + length before)) rest []
                (trace_after_send world cfg tot i before row tr))"
    unfolding batch_loop_Cons trace_at_send_def trace_after_send_def
    by (subst batch_loop_acc) simp
  then show ?thesis
    by (simp add: batch_loop_append del: batch_loop.simps)
qed

lemma run_clicked_outcome:
  "fst (run_clicked world cfg df tr) =
     (if client_id cfg \<noteq> [] \<and> client_secret cfg \<noteq> [] \<and> template_id cfg \<noteq> []
         \<and> channel_id cfg \<noteq> [] \<and> ''to_number'' \<in> set (columns df) \<and> ''to_name'' \<in> set (columns df)
      then Some (fst (batch_loop world cfg (length (records (capped_df cfg df))) 1
                        (to_dict_records (capped_df cfg df)) [] (tr @ [EvInfo starting_message])))
      else None)"
  by (auto simp add: run_clicked_def validate_dataframe_def required_def Let_def
      split: prod.splits)

lemma json_escape_char_plain: "json_plain c \<Longrightarrow> json_escape_char c = [c]"
  by (auto simp add: json_plain_def json_escape_char_def Let_def)

lemma json_escape_plain: "list_all json_plain s \<Longrightarrow> concat (map json_escape_char s) = s"
  by (induction s) (simp_all add: json_escape_char_plain)

lemma json_escape_char_length: "1 \<le> length (json_escape_char c)"
  by (simp add: json_escape_char_def Let_def hex2_def)

lemma json_escape_length: "length s \<le> length (concat (map json_escape_char s))"
proof (induction s)
  case Nil
  show ?case by simp
next
  case (Cons c s)
  then show ?case
    using json_escape_char_length [of c] by simp
qed

lemma json_dumps_raw:
  \<open>json_dumps (PDict [(''raw'', PStr t)]) = ''{"raw": '' @ json_string t @ ''}''\<close>
  by (simp add: join_with_def)
     (simp add: json_string_def json_escape_char_def dquote_def backslash_def)

lemma json_dumps_raw_plain:
  \<open>list_all json_plain t \<Longrightarrow> json_dumps (PDict [(''raw'', PStr t)]) = ''{"raw": "'' @ t @ ''"}''\<close>
  by (simp only: json_dumps_raw) (simp add: json_string_def json_escape_plain dquote_def)

lemma json_dumps_raw_differs: "json_dumps (PDict [(''raw'', PStr t)]) \<noteq> t"
proof
  assume "json_dumps (PDict [(''raw'', PStr t)]) = t"
  then have "length (json_dumps (PDict [(''raw'', PStr t)])) = length t" by simp
  moreover have "length t < length (json_dumps (PDict [(''raw'', PStr t)]))"
    using json_escape_length [of t] by (simp only: json_dumps_raw) (simp add: json_string_def)
  ultimately show False by simp
qed

section \<open>The claims\<close>

lemma send_trace_prefix:
  "\<exists>evs. snd (send_whatsapp world row template channel url fname cid secret delay tr) =
     tr @ [EvUtcnow, post_event world row template channel url fname cid secret tr] @ evs"
  by (auto simp add: send_defs split: sum.splits prod.splits)

lemma to_dict_records_length: "length (to_dict_records df) = length (records df)"
  by (simp add: to_dict_records_def)

text \<open>
  C1. For every sequence of recipient rows, the loop of the run produces exactly one result
  per row, in the order of the rows: the list of results is as long as the list of rows, its
  numbers and names are the stripped numbers and names of the rows, and the result at the
  position of a row is the one \<open>send_whatsapp\<close> returned for that row, whatever the world
  answered (a failure included). The same holds for a run that passes its checks, over the
  rows left after the optional cap \<open>max_rows\<close>.
\<close>

theorem batch_one_result_per_recipient:
  "length (fst (batch_loop world cfg tot i rows [] tr)) = length rows
   \<and> map to_number (fst (batch_loop world cfg tot i rows [] tr)) = map recipient_number rows
   \<and> map to_name (fst (batch_loop world cfg tot i rows [] tr)) = map recipient_name rows
   \<and> fst (batch_loop world cfg tot i (before @ row # rest) [] tr) ! length before
       = fst (send_row world cfg row (trace_at_send world cfg tot i before row tr))
   \<and> (fst (run_clicked world cfg df tr) = Some results \<longrightarrow>
         length results = length (records (capped_df cfg df))
         \<and> map to_number results = map recipient_number (to_dict_records (capped_df cfg df))
         \<and> map to_name results = map recipient_name (to_dict_records (capped_df cfg df)))"
proof -
  have "fst (batch_loop world cfg tot i (before @ row # rest) [] tr) ! length before
       = fst (send_row world cfg row (trace_at_send world cfg tot i before row tr))"
    unfolding trace_at_send_def by (rule batch_loop_nth)
  moreover have "fst (run_clicked world cfg df tr) = Some results \<longrightarrow>
         length results = length (records (capped_df cfg df))
         \<and> map to_number results = map recipient_number (to_dict_records (capped_df cfg df))
         \<and> map to_name results = map recipient_name (to_dict_records (capped_df cfg df))"
    by (auto simp add: run_clicked_outcome batch_loop_length batch_loop_recipients
        to_dict_records_length split: if_splits)
  ultimately show ?thesis
    by (simp add: batch_loop_length batch_loop_recipients)
qed

theorem batch_one_result_per_recipient_witness:
  "fst (run_clicked sample_world sample_cfg sample_df []) \<noteq> None
   \<and> length (the (fst (run_clicked sample_world sample_cfg sample_df []))) = 3
   \<and> map to_number (the (fst (run_clicked sample_world sample_cfg sample_df [])))
       = [''6281000001'', ''6281000002'', ''6281000003'']
   \<and> map to_name (the (fst (run_clicked sample_world sample_cfg sample_df [])))
       = [''Ani'', ''Budi'', ''Citra'']
   \<and> map status_code (the (fst (run_clicked sample_world sample_cfg sample_df [])))
       = [Some 200, Some 422, Some 201]"
proof -
  have e: "fst (run_clicked sample_world sample_cfg sample_df []) \<noteq> None"
    by (simp add: run_clicked_outcome sample_cfg_def sample_df_def)
  then obtain results where r: "fst (run_clicked sample_world sample_cfg sample_df []) = Some results"
    by blast
  have c: "capped_df sample_cfg sample_df = sample_df"
    by (simp add: capped_df_def sample_cfg_def)
  have "length results = 3"
    using batch_one_result_per_recipient [of sample_world sample_cfg 3 1 "[]" "[]" "[]" "[]" "[]"
        sample_df results] r
    by (simp add: c) (simp add: sample_df_def)
  moreover have "map status_code results = [Some 200, Some 422, Some 201]
      \<and> map to_number results = [''6281000001'', ''6281000002'', ''6281000003'']
      \<and> map to_name results = [''Ani'', ''Budi'', ''Citra'']"
    using r by (auto simp add: eval_defs)
  ultimately show ?thesis using r by simp
qed

text \<open>
  C2, as amended. When the world answers the POST of a send with a status other than 200,
  201 and 202, the result has the status code and the body of the answer, no broadcast
  identifier, no log status and no log body, and the send makes no further request. Its
  error is a JSON text written by \<open>json.dumps\<close>: of the parsed body when the body parses,
  and otherwise of an object with the one member \<open>raw\<close> holding the body, that is
  \<open>{"raw": "<body>"}\<close> with the body escaped as a JSON string (as it stands when it is
  made of plain characters). In the second case the error is never the raw body itself. For
  a status 422 whose body parses to the object with the one member \<open>error\<close> =
  \<open>invalid number\<close>, the error is \<open>{"error": "invalid number"}\<close> and contains
  \<open>invalid number\<close>. In a batch, the results before such a recipient are those of the
  loop over the rows before it, and the results after it are those of the loop over the
  remaining rows, started right after the rejected POST.
\<close>

theorem rejected_send_result:
  \<open>(post_outcome world row template channel url fname cid secret tr = Inr r
      \<and> resp_status_code r \<notin> {200, 201, 202} \<longrightarrow>
     send_whatsapp world row template channel url fname cid secret delay tr =
       ((empty_result (recipient_number row) (recipient_name row))
          \<lparr>status_code := Some (resp_status_code r), send_response := Some (resp_text r),
           error := Some (json_dumps (case resp_json r of
                                        Inl e \<Rightarrow> PDict [(''raw'', PStr (resp_text r))]
                                      | Inr j \<Rightarrow> j))\<rparr>,
        tr @ [EvUtcnow, post_event world row template channel url fname cid secret tr])
     \<and> broadcast_id (fst (send_whatsapp world row template channel url fname cid secret delay tr))
         = PNone
     \<and> log_status_code (fst (send_whatsapp world row template channel url fname cid secret delay tr))
         = None
     \<and> log_response (fst (send_whatsapp world row template channel url fname cid secret delay tr))
         = None)
   \<and> (post_outcome world row template channel url fname cid secret tr = Inr r
        \<and> resp_status_code r \<notin> {200, 201, 202} \<and> resp_json r = Inl perr \<longrightarrow>
       error (fst (send_whatsapp world row template channel url fname cid secret delay tr))
         = Some (''{"raw": '' @ [CHR 0x22] @ concat (map json_escape_char (resp_text r))
                   @ [CHR 0x22] @ ''}'')
       \<and> error (fst (send_whatsapp world row template channel url fname cid secret delay tr))
         \<noteq> Some (resp_text r)
       \<and> (list_all json_plain (resp_text r) \<longrightarrow>
            error (fst (send_whatsapp world row template channel url fname cid secret delay tr))
              = Some (''{"raw": "'' @ resp_text r @ ''"}'')))
   \<and> (post_outcome world row template channel url fname cid secret tr = Inr r
        \<and> resp_status_code r = 422
        \<and> resp_json r = Inr (PDict [(''error'', PStr ''invalid number'')]) \<longrightarrow>
       status_code (fst (send_whatsapp world row template channel url fname cid secret delay tr))
         = Some 422
       \<and> error (fst (send_whatsapp world row template channel url fname cid secret delay tr))
         = Some (''{"error": "'' @ ''invalid number'' @ ''"}'')
       \<and> sublist ''invalid number''
             (the (error (fst (send_whatsapp world row template channel url fname cid secret delay tr)))))
   \<and> (post_outcome world row (template_id cfg) (channel_id cfg) (strip_or_none image_url)
          (strip_or_none image_filename) (client_id cfg) (client_secret cfg)
          (trace_at_send world cfg tot i before row tr) = Inr r
        \<and> resp_status_code r \<notin> {200, 201, 202} \<longrightarrow>
       fst (batch_loop world cfg tot i (before @ row # rest) [] tr) =
         fst (batch_loop world cfg tot i before [] tr)
           @ fst (send_row world cfg row (trace_at_send world cfg tot i before row tr))
           # fst (batch_loop world cfg tot (Suc (i + length before)) rest []
                   (trace_at_send world cfg tot i before row tr
                      @ [EvUtcnow,
                         post_event world row (template_id cfg) (channel_id cfg)
                           (strip_or_none image_url) (strip_or_none image_filename)
                           (client_id cfg) (client_secret cfg)
                           (trace_at_send world cfg tot i before row tr),
                         EvProgress (i + length before) tot])))\<close>
proof (intro conjI impI)
  assume a: "post_outcome world row template channel url fname cid secret tr = Inr r
      \<and> resp_status_code r \<notin> {200, 201, 202}"
  then have a1: "post_outcome world row template channel url fname cid secret tr = Inr r"
    and a2: "resp_status_code r \<notin> {200, 201, 202}" by simp_all
  show "send_whatsapp world row template channel url fname cid secret delay tr =
       ((empty_result (recipient_number row) (recipient_name row))
          \<lparr>status_code := Some (resp_status_code r), send_response := Some (resp_text r),
           error := Some (json_dumps (case resp_json r of
                                        Inl e \<Rightarrow> PDict [(''raw'', PStr (resp_text r))]
                                      | Inr j \<Rightarrow> j))\<rparr>,
        tr @ [EvUtcnow, post_event world row template channel url fname cid secret tr])"
    by (rule send_rejected [OF a1 a2])
  show "broadcast_id (fst (send_whatsapp world row template channel url fname cid secret delay tr))
         = PNone"
    by (simp add: send_rejected [OF a1 a2] empty_result_def)
  show "log_status_code (fst (send_whatsapp world row template channel url fname cid secret delay tr))
         = None"
    by (simp add: send_rejected [OF a1 a2] empty_result_def)
  show "log_response (fst (send_whatsapp world row template channel url fname cid secret delay tr))
         = None"
    by (simp add: send_rejected [OF a1 a2] empty_result_def)
next
  assume w: "post_outcome world row template channel url fname cid secret tr = Inr r
        \<and> resp_status_code r \<notin> {200, 201, 202} \<and> resp_json r = Inl perr"
  then have w1: "post_outcome world row template channel url fname cid secret tr = Inr r"
    and w2: "resp_status_code r \<notin> {200, 201, 202}" and w3: "resp_json r = Inl perr"
    by simp_all
  have err: "error (fst (send_whatsapp world row template channel url fname cid secret delay tr))
      = Some (json_dumps (PDict [(''raw'', PStr (resp_text r))]))"
    by (simp add: send_rejected [OF w1 w2] w3)
  show \<open>error (fst (send_whatsapp world row template channel url fname cid secret delay tr))
         = Some (''{"raw": '' @ [CHR 0x22] @ concat (map json_escape_char (resp_text r))
                   @ [CHR 0x22] @ ''}'')\<close>
    by (simp only: err json_dumps_raw) (simp add: json_string_def dquote_def)
  show "error (fst (send_whatsapp world row template channel url fname cid secret delay tr))
         \<noteq> Some (resp_text r)"
    using json_dumps_raw_differs [of "resp_text r"] by (simp only: err) simp
  assume "list_all json_plain (resp_text r)"
  then show \<open>error (fst (send_whatsapp world row template channel url fname cid secret delay tr))
              = Some (''{"raw": "'' @ resp_text r @ ''"}'')\<close>
    by (simp only: err json_dumps_raw_plain)
next
  assume b: "post_outcome world row template channel url fname cid secret tr = Inr r
        \<and> resp_status_code r = 422
        \<and> resp_json r = Inr (PDict [(''error'', PStr ''invalid number'')])"
  then have b1: "post_outcome world row template channel url fname cid secret tr = Inr r"
    and b2: "resp_status_code r \<notin> {200, 201, 202}" by simp_all
  have d: \<open>json_dumps (PDict [(''error'', PStr ''invalid number'')])
      = ''{"error": "'' @ ''invalid number'' @ ''"}''\<close>
    by (simp add: json_string_def json_escape_char_def join_with_def dquote_def backslash_def)
  show "status_code (fst (send_whatsapp world row template channel url fname cid secret delay tr))
         = Some 422"
    using b by (simp add: send_rejected [OF b1 b2])
  show e: \<open>error (fst (send_whatsapp world row template channel url fname cid secret delay tr))
         = Some (''{"error": "'' @ ''invalid number'' @ ''"}'')\<close>
    using b by (simp only: send_rejected [OF b1 b2] d [symmetric]) simp
  show "sublist ''invalid number''
          (the (error (fst (send_whatsapp world row template channel url fname cid secret delay tr))))"
    by (simp only: e option.sel) (rule sublist_appendI)
next
  assume c: "post_outcome world row (template_id cfg) (channel_id cfg) (strip_or_none image_url)
          (strip_or_none image_filename) (client_id cfg) (client_secret cfg)
          (trace_at_send world cfg tot i before row tr) = Inr r
        \<and> resp_status_code r \<notin> {200, 201, 202}"
  then have c1: "post_outcome world row (template_id cfg) (channel_id cfg) (strip_or_none image_url)
          (strip_or_none image_filename) (client_id cfg) (client_secret cfg)
          (trace_at_send world cfg tot i before row tr) = Inr r"
    and c2: "resp_status_code r \<notin> {200, 201, 202}" by simp_all
  have "trace_after_send world cfg tot i before row tr =
      trace_at_send world cfg tot i before row tr
        @ [EvUtcnow,
           post_event world row (template_id cfg) (channel_id cfg)
             (strip_or_none image_url) (strip_or_none image_filename)
             (client_id cfg) (client_secret cfg)
             (trace_at_send world cfg tot i before row tr),
           EvProgress (i + length before) tot]"
    unfolding trace_after_send_def send_row_def by (simp add: send_rejected [OF c1 c2])
  then show "fst (batch_loop world cfg tot i (before @ row # rest) [] tr) =
         fst (batch_loop world cfg tot i before [] tr)
           @ fst (send_row world cfg row (trace_at_send world cfg tot i before row tr))
           # fst (batch_loop world cfg tot (Suc (i + length before)) rest []
                   (trace_at_send world cfg tot i before row tr
                      @ [EvUtcnow,
                         post_event world row (template_id cfg) (channel_id cfg)
                           (strip_or_none image_url) (strip_or_none image_filename)
                           (client_id cfg) (client_secret cfg)
                           (trace_at_send world cfg tot i before row tr),
                         EvProgress (i + length before) tot]))"
    by (simp only: batch_loop_split)
qed

theorem rejected_send_result_witness:
  \<open>post_outcome sample_world (sample_row ''6281000002'' ''Budi'') ''tpl'' ''chan'' None None
       ''client'' ''secret'' [] = Inr rejected
   \<and> resp_status_code rejected = 422
   \<and> resp_status_code rejected \<notin> {200, 201, 202}
   \<and> resp_json rejected = Inr (PDict [(''error'', PStr ''invalid number'')])
   \<and> fst (send_whatsapp sample_world (sample_row ''6281000002'' ''Budi'') ''tpl'' ''chan'' None None
              ''client'' ''secret'' 10 []) =
         \<lparr>to_number = ''6281000002'', to_name = ''Budi'', status_code = Some 422,
          broadcast_id = PNone, send_response = Some ''{"error":"invalid number"}'',
          log_status_code = None, log_response = None,
          error = Some ''{"error": "invalid number"}''\<rparr>
   \<and> post_outcome sample_world (sample_row ''6281000007'' ''Gita'') ''tpl'' ''chan'' None None
       ''client'' ''secret'' [] = Inr (not_json 500 ''Internal Server Error'')
   \<and> resp_status_code (not_json 500 ''Internal Server Error'') \<notin> {200, 201, 202}
   \<and> resp_json (not_json 500 ''Internal Server Error'')
       = Inl ''Expecting value: line 1 column 1 (char 0)''
   \<and> list_all json_plain (resp_text (not_json 500 ''Internal Server Error''))
   \<and> error (fst (send_whatsapp sample_world (sample_row ''6281000007'' ''Gita'') ''tpl'' ''chan''
                     None None ''client'' ''secret'' 10 []))
       = Some ''{"raw": "Internal Server Error"}''
   \<and> map status_code
         (fst (batch_loop sample_world sample_cfg 3 1
                 ([sample_row ''6281000001'' ''Ani''] @ sample_row ''6281000002'' ''Budi''
                    # [sample_row ''6281000003'' ''Citra'']) [] []))
       = [Some 200, Some 422, Some 201]
   \<and> map broadcast_id
         (fst (batch_loop sample_world sample_cfg 3 1
                 ([sample_row ''6281000001'' ''Ani''] @ sample_row ''6281000002'' ''Budi''
                    # [sample_row ''6281000003'' ''Citra'']) [] []))
       = [PStr ''bc_123'', PNone, PStr ''bc_456'']
   \<and> map log_status_code
         (fst (batch_loop sample_world sample_cfg 3 1
                 ([sample_row ''6281000001'' ''Ani''] @ sample_row ''6281000002'' ''Budi''
                    # [sample_row ''6281000003'' ''Citra'']) [] []))
       = [Some 200, None, Some 200]
   \<and> map error
         (fst (batch_loop sample_world sample_cfg 3 1
                 ([sample_row ''6281000001'' ''Ani''] @ sample_row ''6281000002'' ''Budi''
                    # [sample_row ''6281000003'' ''Citra'']) [] []))
       = [None, Some ''{"error": "invalid number"}'', None]\<close>
proof -
  have h1: "post_outcome sample_world (sample_row ''6281000002'' ''Budi'') ''tpl'' ''chan'' None None
       ''client'' ''secret'' [] = Inr rejected"
    by (simp add: eval_defs)
  have h2: "resp_status_code rejected = 422" "resp_status_code rejected \<notin> {200, 201, 202}"
    "resp_json rejected = Inr (PDict [(''error'', PStr ''invalid number'')])"
    by (simp_all add: rejected_def)
  have s: \<open>fst (send_whatsapp sample_world (sample_row ''6281000002'' ''Budi'') ''tpl'' ''chan'' None None
              ''client'' ''secret'' 10 []) =
         \<lparr>to_number = ''6281000002'', to_name = ''Budi'', status_code = Some 422,
          broadcast_id = PNone, send_response = Some ''{"error":"invalid number"}'',
          log_status_code = None, log_response = None,
          error = Some ''{"error": "invalid number"}''\<rparr>\<close>
    using rejected_send_result [where world = sample_world
        and row = "sample_row ''6281000002'' ''Budi''" and template = "''tpl''"
        and channel = "''chan''" and url = None and fname = None and cid = "''client''"
        and secret = "''secret''" and tr = "[]" and r = rejected and delay = 10,
        THEN conjunct1] h1 h2
    by (simp add: empty_result_def recipient_number_def recipient_name_def sample_row_def
        dict_get_def py_strip_def py_isspace_def rejected_def json_string_def
        json_escape_char_def join_with_def dquote_def backslash_def)
  have g1: "post_outcome sample_world (sample_row ''6281000007'' ''Gita'') ''tpl'' ''chan'' None None
       ''client'' ''secret'' [] = Inr (not_json 500 ''Internal Server Error'')"
    by (simp add: eval_defs)
  have g2: "resp_status_code (not_json 500 ''Internal Server Error'') \<notin> {200, 201, 202}"
    "resp_json (not_json 500 ''Internal Server Error'')
       = Inl ''Expecting value: line 1 column 1 (char 0)''"
    by (simp_all add: not_json_def)
  have g3: "list_all json_plain (resp_text (not_json 500 ''Internal Server Error''))"
    by (simp add: not_json_def json_plain_def dquote_def backslash_def)
  have g: \<open>error (fst (send_whatsapp sample_world (sample_row ''6281000007'' ''Gita'') ''tpl'' ''chan''
                     None None ''client'' ''secret'' 10 []))
       = Some ''{"raw": "Internal Server Error"}''\<close>
    using rejected_send_result [where world = sample_world
        and row = "sample_row ''6281000007'' ''Gita''" and template = "''tpl''"
        and channel = "''chan''" and url = None and fname = None and cid = "''client''"
        and secret = "''secret''" and tr = "[]" and r = "not_json 500 ''Internal Server Error''"
        and delay = 10 and perr = "''Expecting value: line 1 column 1 (char 0)''",
        THEN conjunct2, THEN conjunct1] g1 g2 g3
    by (simp add: not_json_def json_escape_char_def dquote_def backslash_def)
  have b: "map (\<lambda>x. (status_code x, broadcast_id x, log_status_code x, error x))
      (fst (batch_loop sample_world sample_cfg 3 1
              [sample_row ''6281000001'' ''Ani'', sample_row ''6281000002'' ''Budi'',
               sample_row ''6281000003'' ''Citra''] [] []))
     = [(Some 200, PStr ''bc_123'', Some 200, None),
        (Some 422, PNone, None, Some (json_dumps (PDict [(''error'', PStr ''invalid number'')]))),
        (Some 201, PStr ''bc_456'', Some 200, None)]"
    by (simp add: eval_defs)
  have d: \<open>json_dumps (PDict [(''error'', PStr ''invalid number'')]) = ''{"error": "invalid number"}''\<close>
    by (simp add: json_string_def json_escape_char_def join_with_def dquote_def backslash_def)
  have m: "map status_code xs = map fst (map (\<lambda>x. (status_code x, broadcast_id x, log_status_code x, error x)) xs)"
    "map broadcast_id xs = map (fst \<circ> snd) (map (\<lambda>x. (status_code x, broadcast_id x, log_status_code x, error x)) xs)"
    "map log_status_code xs = map (fst \<circ> snd \<circ> snd) (map (\<lambda>x. (status_code x, broadcast_id x, log_status_code x, error x)) xs)"
    "map error xs = map (snd \<circ> snd \<circ> snd) (map (\<lambda>x. (status_code x, broadcast_id x, log_status_code x, error x)) xs)"
    for xs :: "result list"
    by simp_all
  show ?thesis
    by (simp only: h1 h2 s g1 g2 g3 g append.simps m b d) simp
qed

text \<open>
  The claim as it was stated takes the error of a body that is not JSON to be the raw text.
  At status 500 with the body \<open>Internal Server Error\<close> the error is the JSON text
  \<open>{"raw": "Internal Server Error"}\<close>, not that body.
\<close>

theorem rejected_send_raw_text_counterexample:
  \<open>post_outcome sample_world (sample_row ''6281000007'' ''Gita'') ''tpl'' ''chan'' None None
       ''client'' ''secret'' [] = Inr (not_json 500 ''Internal Server Error'')
   \<and> resp_status_code (not_json 500 ''Internal Server Error'') \<notin> {200, 201, 202}
   \<and> resp_json (not_json 500 ''Internal Server Error'')
       = Inl ''Expecting value: line 1 column 1 (char 0)''
   \<and> resp_text (not_json 500 ''Internal Server Error'') = ''Internal Server Error''
   \<and> error (fst (send_whatsapp sample_world (sample_row ''6281000007'' ''Gita'') ''tpl'' ''chan''
                     None None ''client'' ''secret'' 10 []))
       = Some ''{"raw": "Internal Server Error"}''
   \<and> error (fst (send_whatsapp sample_world (sample_row ''6281000007'' ''Gita'') ''tpl'' ''chan''
                     None None ''client'' ''secret'' 10 []))
       \<noteq> Some ''Internal Server Error''\<close>
  by (simp add: eval_defs)

text \<open>
  C3. When the world answers the POST with status 200, 201 or 202 and a body that parses to
  an object whose \<open>data.id\<close> is an identifier (a value that counts as true: an empty or
  zero identifier is none), the send sleeps for the configured delay (for no time when
  the delay is 0 or less), then signs and makes exactly one GET, to the log path that holds
  the text of the identifier, and these are all its events after the POST. The result
  carries the identifier, and when the world answers the GET, the status code and body of
  that answer are the log status and log body of the result.
\<close>

theorem log_fetch_after_success:
  assumes "post_outcome world row template channel url fname cid secret tr = Inr r"
    and "resp_status_code r \<in> {200, 201, 202}"
    and "resp_json r = Inr data"
    and "extract_id data = Inr bid"
    and "py_truthy bid"
  shows "snd (send_whatsapp world row template channel url fname cid secret delay tr) =
           tr @ [EvUtcnow, post_event world row template channel url fname cid secret tr,
                 EvSleep (max 0 delay), EvUtcnow,
                 EvGet (API_BASE @ ''/qontak/chat/v1/broadcasts/'' @ py_str bid @ ''/whatsapp/log'')
                   (auth_headers
                      (utcnow world
                         (tr @ [EvUtcnow, post_event world row template channel url fname cid secret tr,
                                EvSleep (max 0 delay)]))
                      ''GET'' (''/qontak/chat/v1/broadcasts/'' @ py_str bid @ ''/whatsapp/log'')
                      cid secret)
                   60]
     \<and> length (filter is_get
           (drop (length tr)
              (snd (send_whatsapp world row template channel url fname cid secret delay tr)))) = 1
     \<and> broadcast_id (fst (send_whatsapp world row template channel url fname cid secret delay tr))
         = bid
     \<and> (log_outcome world cid secret delay bid
           (tr @ [EvUtcnow, post_event world row template channel url fname cid secret tr]) = Inr g
         \<longrightarrow>
          log_status_code (fst (send_whatsapp world row template channel url fname cid secret delay tr))
            = Some (resp_status_code g)
          \<and> log_response (fst (send_whatsapp world row template channel url fname cid secret delay tr))
            = Some (resp_text g))"
proof -
  let ?tr1 = "tr @ [EvUtcnow, post_event world row template channel url fname cid secret tr]"
  have both: "snd (send_whatsapp world row template channel url fname cid secret delay tr) =
      tr @ [EvUtcnow, post_event world row template channel url fname cid secret tr,
            EvSleep (max 0 delay), EvUtcnow, log_event world cid secret delay bid ?tr1]
    \<and> broadcast_id (fst (send_whatsapp world row template channel url fname cid secret delay tr))
      = bid"
  proof (cases "log_outcome world cid secret delay bid ?tr1")
    case (Inl e)
    show ?thesis by (simp add: send_log_raises [OF assms Inl])
  next
    case (Inr g')
    show ?thesis by (simp add: send_logged [OF assms Inr])
  qed
  then have tr: "snd (send_whatsapp world row template channel url fname cid secret delay tr) =
      tr @ [EvUtcnow, post_event world row template channel url fname cid secret tr,
            EvSleep (max 0 delay), EvUtcnow, log_event world cid secret delay bid ?tr1]"
    and bid: "broadcast_id (fst (send_whatsapp world row template channel url fname cid secret delay tr))
      = bid"
    by simp_all
  have ev: "log_event world cid secret delay bid ?tr1 =
      EvGet (API_BASE @ ''/qontak/chat/v1/broadcasts/'' @ py_str bid @ ''/whatsapp/log'')
        (auth_headers
           (utcnow world
              (tr @ [EvUtcnow, post_event world row template channel url fname cid secret tr,
                     EvSleep (max 0 delay)]))
           ''GET'' (''/qontak/chat/v1/broadcasts/'' @ py_str bid @ ''/whatsapp/log'') cid secret)
        60"
    by (simp add: log_event_def get_url_path_def)
  have one: "length (filter is_get
           (drop (length tr)
              (snd (send_whatsapp world row template channel url fname cid secret delay tr)))) = 1"
    by (simp add: tr log_event_def post_event_def)
  have logged: "log_outcome world cid secret delay bid ?tr1 = Inr g \<longrightarrow>
          log_status_code (fst (send_whatsapp world row template channel url fname cid secret delay tr))
            = Some (resp_status_code g)
          \<and> log_response (fst (send_whatsapp world row template channel url fname cid secret delay tr))
            = Some (resp_text g)"
  proof
    assume g: "log_outcome world cid secret delay bid ?tr1 = Inr g"
    show "log_status_code (fst (send_whatsapp world row template channel url fname cid secret delay tr))
            = Some (resp_status_code g)
          \<and> log_response (fst (send_whatsapp world row template channel url fname cid secret delay tr))
            = Some (resp_text g)"
      by (simp add: send_logged [OF assms g])
  qed
  from tr ev one bid logged show ?thesis by simp
qed

theorem log_fetch_after_success_witness:
  \<open>post_outcome sample_world (sample_row ''6281000001'' ''Ani'') ''tpl'' ''chan'' None None
       ''client'' ''secret'' [] = Inr (accepted 200 ''bc_123'')
   \<and> resp_status_code (accepted 200 ''bc_123'') \<in> {200, 201, 202}
   \<and> resp_json (accepted 200 ''bc_123'') = Inr (PDict [(''data'', PDict [(''id'', PStr ''bc_123'')])])
   \<and> extract_id (PDict [(''data'', PDict [(''id'', PStr ''bc_123'')])]) = Inr (PStr ''bc_123'')
   \<and> py_truthy (PStr ''bc_123'')
   \<and> snd (send_whatsapp sample_world (sample_row ''6281000001'' ''Ani'') ''tpl'' ''chan'' None None
              ''client'' ''secret'' 0 []) =
         [EvUtcnow,
          post_event sample_world (sample_row ''6281000001'' ''Ani'') ''tpl'' ''chan'' None None
            ''client'' ''secret'' [],
          EvSleep 0, EvUtcnow,
          EvGet ''https://api.mekari.com/qontak/chat/v1/broadcasts/bc_123/whatsapp/log''
            (auth_headers sample_now ''GET'' ''/qontak/chat/v1/broadcasts/bc_123/whatsapp/log''
               ''client'' ''secret'')
            60]
   \<and> log_status_code
         (fst (send_whatsapp sample_world (sample_row ''6281000001'' ''Ani'') ''tpl'' ''chan'' None None
                 ''client'' ''secret'' 0 [])) = Some 200
   \<and> log_response
         (fst (send_whatsapp sample_world (sample_row ''6281000001'' ''Ani'') ''tpl'' ''chan'' None None
                 ''client'' ''secret'' 0 [])) = Some ''{"status":"success"}''\<close>
proof -
  have h1: "post_outcome sample_world (sample_row ''6281000001'' ''Ani'') ''tpl'' ''chan'' None None
       ''client'' ''secret'' [] = Inr (accepted 200 ''bc_123'')"
    by (simp add: eval_defs)
  have h2: "resp_status_code (accepted 200 ''bc_123'') \<in> {200, 201, 202}"
    by (simp add: accepted_def)
  have h3: "resp_json (accepted 200 ''bc_123'')
      = Inr (PDict [(''data'', PDict [(''id'', PStr ''bc_123'')])])"
    by (simp add: accepted_def)
  have h4: "extract_id (PDict [(''data'', PDict [(''id'', PStr ''bc_123'')])]) = Inr (PStr ''bc_123'')"
    by (simp add: extract_id_def py_get_def dict_get_def)
  have h5: "py_truthy (PStr ''bc_123'')" by simp
  have g: \<open>log_outcome sample_world ''client'' ''secret'' 0 (PStr ''bc_123'')
       ([] @ [EvUtcnow, post_event sample_world (sample_row ''6281000001'' ''Ani'') ''tpl'' ''chan''
                None None ''client'' ''secret'' []])
     = Inr \<lparr>resp_status_code = 200, resp_text = ''{"status":"success"}'',
            resp_json = Inr (PDict [(''status'', PStr ''success'')])\<rparr>\<close>
    by (simp add: log_outcome_def sample_world_def sample_get_def API_BASE_def get_url_path_def)
  show ?thesis
    using log_fetch_after_success [OF h1 h2 h3 h4 h5, of 0] h1 h2 h3 h4 h5 g
    by (simp add: API_BASE_def sample_world_def)
qed

text \<open>
  C4. A transport exception is an answer \<open>Inl e\<close> of the world. When the POST raises,
  \<open>send_whatsapp\<close> still returns: its result is the initial one with the error set to the
  text of the exception, and nothing follows the POST. When the POST is accepted with an
  identifier and the log fetch raises, it returns as well, with the error set to the text of
  that exception. In the loop, the result of a row is appended whatever it is, and the loop
  goes on with the rows that remain: the results are one more than the remaining rows.
\<close>

theorem transport_exception_caught:
  "(post_outcome world row template channel url fname cid secret tr = Inl e \<longrightarrow>
      send_whatsapp world row template channel url fname cid secret delay tr =
        ((empty_result (recipient_number row) (recipient_name row))\<lparr>error := Some e\<rparr>,
         tr @ [EvUtcnow, post_event world row template channel url fname cid secret tr]))
   \<and> (post_outcome world row template channel url fname cid secret tr = Inr r
        \<and> resp_status_code r \<in> {200, 201, 202} \<and> resp_json r = Inr data
        \<and> extract_id data = Inr bid \<and> py_truthy bid
        \<and> log_outcome world cid secret delay bid
              (tr @ [EvUtcnow, post_event world row template channel url fname cid secret tr]) = Inl e
        \<longrightarrow>
       error (fst (send_whatsapp world row template channel url fname cid secret delay tr)) = Some e)
   \<and> batch_loop world cfg tot i (row # rows) acc tr =
       batch_loop world cfg tot (Suc i) rows
         (acc @ [fst (send_row world cfg row (tr @ [EvStatus (sending_message row i tot)]))])
         (snd (send_row world cfg row (tr @ [EvStatus (sending_message row i tot)]))
            @ [EvProgress i tot])
   \<and> length (fst (batch_loop world cfg tot i (row # rows) [] tr)) = Suc (length rows)"
proof (intro conjI impI)
  assume "post_outcome world row template channel url fname cid secret tr = Inl e"
  then show "send_whatsapp world row template channel url fname cid secret delay tr =
        ((empty_result (recipient_number row) (recipient_name row))\<lparr>error := Some e\<rparr>,
         tr @ [EvUtcnow, post_event world row template channel url fname cid secret tr])"
    by (rule send_post_raises)
next
  assume a: "post_outcome world row template channel url fname cid secret tr = Inr r
        \<and> resp_status_code r \<in> {200, 201, 202} \<and> resp_json r = Inr data
        \<and> extract_id data = Inr bid \<and> py_truthy bid
        \<and> log_outcome world cid secret delay bid
              (tr @ [EvUtcnow, post_event world row template channel url fname cid secret tr]) = Inl e"
  have "send_whatsapp world row template channel url fname cid secret delay tr =
    ((empty_result (recipient_number row) (recipient_name row))
       \<lparr>status_code := Some (resp_status_code r), send_response := Some (resp_text r),
        broadcast_id := bid, error := Some e\<rparr>,
     tr @ [EvUtcnow, post_event world row template channel url fname cid secret tr,
           EvSleep (max 0 delay), EvUtcnow,
           log_event world cid secret delay bid
             (tr @ [EvUtcnow, post_event world row template channel url fname cid secret tr])])"
    by (rule send_log_raises [OF a [THEN conjunct1] a [THEN conjunct2, THEN conjunct1]
          a [THEN conjunct2, THEN conjunct2, THEN conjunct1]
          a [THEN conjunct2, THEN conjunct2, THEN conjunct2, THEN conjunct1]
          a [THEN conjunct2, THEN conjunct2, THEN conjunct2, THEN conjunct2, THEN conjunct1]
          a [THEN conjunct2, THEN conjunct2, THEN conjunct2, THEN conjunct2, THEN conjunct2]])
  then show "error (fst (send_whatsapp world row template channel url fname cid secret delay tr))
      = Some e"
    by simp
next
  show "batch_loop world cfg tot i (row # rows) acc tr =
       batch_loop world cfg tot (Suc i) rows
         (acc @ [fst (send_row world cfg row (tr @ [EvStatus (sending_message row i tot)]))])
         (snd (send_row world cfg row (tr @ [EvStatus (sending_message row i tot)]))
            @ [EvProgress i tot])"
    by (rule batch_loop_Cons)
next
  show "length (fst (batch_loop world cfg tot i (row # rows) [] tr)) = Suc (length rows)"
    by (simp add: batch_loop_length del: batch_loop.simps)
qed

theorem transport_exception_caught_witness:
  "post_outcome sample_world (sample_row ''6281000004'' ''Dewi'') ''tpl'' ''chan'' None None
       ''client'' ''secret'' [] = Inl ''Read timed out.''
   \<and> fst (send_whatsapp sample_world (sample_row ''6281000004'' ''Dewi'') ''tpl'' ''chan'' None None
              ''client'' ''secret'' 10 []) =
         \<lparr>to_number = ''6281000004'', to_name = ''Dewi'', status_code = None,
          broadcast_id = PNone, send_response = None, log_status_code = None,
          log_response = None, error = Some ''Read timed out.''\<rparr>
   \<and> map error
         (fst (batch_loop sample_world sample_cfg 2 1
                 [sample_row ''6281000004'' ''Dewi'', sample_row ''6281000001'' ''Ani''] [] []))
       = [Some ''Read timed out.'', None]
   \<and> map status_code
         (fst (batch_loop sample_world sample_cfg 2 1
                 [sample_row ''6281000004'' ''Dewi'', sample_row ''6281000001'' ''Ani''] [] []))
       = [None, Some 200]"
proof -
  have h: "post_outcome sample_world (sample_row ''6281000004'' ''Dewi'') ''tpl'' ''chan'' None None
       ''client'' ''secret'' [] = Inl ''Read timed out.''"
    by (simp add: eval_defs)
  have s: "fst (send_whatsapp sample_world (sample_row ''6281000004'' ''Dewi'') ''tpl'' ''chan'' None None
              ''client'' ''secret'' 10 []) =
         \<lparr>to_number = ''6281000004'', to_name = ''Dewi'', status_code = None,
          broadcast_id = PNone, send_response = None, log_status_code = None,
          log_response = None, error = Some ''Read timed out.''\<rparr>"
    using transport_exception_caught [where world = sample_world
        and row = "sample_row ''6281000004'' ''Dewi''" and template = "''tpl''"
        and channel = "''chan''" and url = None and fname = None and cid = "''client''"
        and secret = "''secret''" and tr = "[]" and e = "''Read timed out.''" and delay = 10,
        THEN conjunct1] h
    by (simp add: empty_result_def recipient_number_def recipient_name_def sample_row_def
        dict_get_def py_strip_def py_isspace_def)
  have b: "map (\<lambda>x. (error x, status_code x))
      (fst (batch_loop sample_world sample_cfg 2 1
              [sample_row ''6281000004'' ''Dewi'', sample_row ''6281000001'' ''Ani''] [] []))
     = [(Some ''Read timed out.'', None), (None, Some 200)]"
    by (simp add: eval_defs)
  have m: "map error xs = map fst (map (\<lambda>x. (error x, status_code x)) xs)"
    "map status_code xs = map snd (map (\<lambda>x. (error x, status_code x)) xs)"
    for xs :: "result list"
    by simp_all
  show ?thesis
    by (simp only: h s m b) simp
qed

text \<open>
  C9. When the POST is accepted with an identifier and the log fetch raises, the result keeps
  what the send stage recorded: the status code and the body of the POST answer and the
  identifier. The log status and the log body stay absent, and the error is the text of the
  exception.
\<close>

theorem log_failure_keeps_send_fields:
  assumes "post_outcome world row template channel url fname cid secret tr = Inr r"
    and "resp_status_code r \<in> {200, 201, 202}"
    and "resp_json r = Inr data"
    and "extract_id data = Inr bid"
    and "py_truthy bid"
    and "log_outcome world cid secret delay bid
           (tr @ [EvUtcnow, post_event world row template channel url fname cid secret tr]) = Inl e"
  shows "fst (send_whatsapp world row template channel url fname cid secret delay tr) =
           \<lparr>to_number = recipient_number row, to_name = recipient_name row,
            status_code = Some (resp_status_code r), broadcast_id = bid,
            send_response = Some (resp_text r), log_status_code = None, log_response = None,
            error = Some e\<rparr>"
  by (simp add: send_log_raises [OF assms] empty_result_def)

theorem log_failure_keeps_send_fields_witness:
  \<open>post_outcome sample_world (sample_row ''6281000006'' ''Eka'') ''tpl'' ''chan'' None None
       ''client'' ''secret'' [] = Inr (accepted 202 ''bc_789'')
   \<and> resp_status_code (accepted 202 ''bc_789'') \<in> {200, 201, 202}
   \<and> resp_json (accepted 202 ''bc_789'') = Inr (PDict [(''data'', PDict [(''id'', PStr ''bc_789'')])])
   \<and> extract_id (PDict [(''data'', PDict [(''id'', PStr ''bc_789'')])]) = Inr (PStr ''bc_789'')
   \<and> py_truthy (PStr ''bc_789'')
   \<and> log_outcome sample_world ''client'' ''secret'' 10 (PStr ''bc_789'')
         ([] @ [EvUtcnow, post_event sample_world (sample_row ''6281000006'' ''Eka'') ''tpl'' ''chan''
                  None None ''client'' ''secret'' []]) = Inl ''Read timed out.''
   \<and> fst (send_whatsapp sample_world (sample_row ''6281000006'' ''Eka'') ''tpl'' ''chan'' None None
              ''client'' ''secret'' 10 []) =
         \<lparr>to_number = ''6281000006'', to_name = ''Eka'', status_code = Some 202,
          broadcast_id = PStr ''bc_789'', send_response = Some ''{"data":{"id":"bc_789"}}'',
          log_status_code = None, log_response = None, error = Some ''Read timed out.''\<rparr>\<close>
proof -
  have h1: "post_outcome sample_world (sample_row ''6281000006'' ''Eka'') ''tpl'' ''chan'' None None
       ''client'' ''secret'' [] = Inr (accepted 202 ''bc_789'')"
    by (simp add: eval_defs)
  have h2: "resp_status_code (accepted 202 ''bc_789'') \<in> {200, 201, 202}"
    by (simp add: accepted_def)
  have h3: "resp_json (accepted 202 ''bc_789'')
      = Inr (PDict [(''data'', PDict [(''id'', PStr ''bc_789'')])])"
    by (simp add: accepted_def)
  have h4: "extract_id (PDict [(''data'', PDict [(''id'', PStr ''bc_789'')])]) = Inr (PStr ''bc_789'')"
    by (simp add: extract_id_def py_get_def dict_get_def)
  have h5: "py_truthy (PStr ''bc_789'')" by simp
  have h6: "log_outcome sample_world ''client'' ''secret'' 10 (PStr ''bc_789'')
         ([] @ [EvUtcnow, post_event sample_world (sample_row ''6281000006'' ''Eka'') ''tpl'' ''chan''
                  None None ''client'' ''secret'' []]) = Inl ''Read timed out.''"
    by (simp add: log_outcome_def sample_world_def sample_get_def API_BASE_def get_url_path_def)
  show ?thesis
    using log_failure_keeps_send_fields [OF h1 h2 h3 h4 h5 h6] h1 h2 h3 h4 h5 h6
    by (simp add: recipient_number_def recipient_name_def sample_row_def dict_get_def
        py_strip_def py_isspace_def accepted_def)
qed

text \<open>
  C10. When the world answers the POST with status 200, 201 or 202 and a body that does not
  parse as JSON, \<open>send_whatsapp\<close> returns all the same: the result has the status code and
  the body of the answer, no identifier, no log status and no log body, its error is the text
  of the parse exception, and nothing follows the POST (no log fetch). A success status code
  and an error thus stand in one result.
\<close>

theorem success_status_unparseable_body:
  assumes "post_outcome world row template channel url fname cid secret tr = Inr r"
    and "resp_status_code r \<in> {200, 201, 202}"
    and "resp_json r = Inl e"
  shows "send_whatsapp world row template channel url fname cid secret delay tr =
           (\<lparr>to_number = recipient_number row, to_name = recipient_name row,
             status_code = Some (resp_status_code r), broadcast_id = PNone,
             send_response = Some (resp_text r), log_status_code = None, log_response = None,
             error = Some e\<rparr>,
            tr @ [EvUtcnow, post_event world row template channel url fname cid secret tr])
     \<and> filter is_get (snd (send_whatsapp world row template channel url fname cid secret delay tr))
         = filter is_get tr"
  by (simp add: send_body_raises [OF assms] empty_result_def post_event_def)

theorem success_status_unparseable_body_witness:
  "post_outcome sample_world (sample_row ''6281000005'' ''Fajar'') ''tpl'' ''chan'' None None
       ''client'' ''secret'' [] = Inr (not_json 200 ''<html>ok</html>'')
   \<and> resp_status_code (not_json 200 ''<html>ok</html>'') \<in> {200, 201, 202}
   \<and> resp_json (not_json 200 ''<html>ok</html>'') = Inl ''Expecting value: line 1 column 1 (char 0)''
   \<and> fst (send_whatsapp sample_world (sample_row ''6281000005'' ''Fajar'') ''tpl'' ''chan'' None None
              ''client'' ''secret'' 10 []) =
         \<lparr>to_number = ''6281000005'', to_name = ''Fajar'', status_code = Some 200,
          broadcast_id = PNone, send_response = Some ''<html>ok</html>'',
          log_status_code = None, log_response = None,
          error = Some ''Expecting value: line 1 column 1 (char 0)''\<rparr>"
proof -
  have h1: "post_outcome sample_world (sample_row ''6281000005'' ''Fajar'') ''tpl'' ''chan'' None None
       ''client'' ''secret'' [] = Inr (not_json 200 ''<html>ok</html>'')"
    by (simp add: eval_defs)
  have h2: "resp_status_code (not_json 200 ''<html>ok</html>'') \<in> {200, 201, 202}"
    by (simp add: not_json_def)
  have h3: "resp_json (not_json 200 ''<html>ok</html>'')
      = Inl ''Expecting value: line 1 column 1 (char 0)''"
    by (simp add: not_json_def)
  show ?thesis
    using success_status_unparseable_body [OF h1 h2 h3, of 10] h1 h2 h3
    by (simp add: recipient_number_def recipient_name_def sample_row_def dict_get_def
        py_strip_def py_isspace_def not_json_def)
qed

text \<open>
  C7. When one of client id, client secret, template id and channel id is empty, or the
  column \<open>to_number\<close> or \<open>to_name\<close> is missing, the run stops with no list of results,
  and all it has done is to show one diagnostic: no clock reading, no request. The checks are
  made once, before the loop: a run that stops has done nothing but show that diagnostic, and
  a run that does not stop shows no diagnostic at all and returns a result for every row left
  after the cap.
\<close>

theorem preconditions_abort_run:
  "(client_id cfg = [] \<or> client_secret cfg = [] \<or> template_id cfg = [] \<or> channel_id cfg = []
      \<longrightarrow> run_clicked world cfg df tr = (None, tr @ [EvError credentials_message]))
   \<and> (client_id cfg \<noteq> [] \<and> client_secret cfg \<noteq> [] \<and> template_id cfg \<noteq> []
        \<and> channel_id cfg \<noteq> []
        \<and> (''to_number'' \<notin> set (columns df) \<or> ''to_name'' \<notin> set (columns df))
      \<longrightarrow> run_clicked world cfg df tr =
            (None,
             tr @ [EvError (''Missing required columns: ''
                     @ join_with '', '' (filter (\<lambda>c. c \<notin> set (columns df)) (required world)))]))
   \<and> (fst (run_clicked world cfg df tr) = None
      \<longrightarrow> (\<exists>msg. snd (run_clicked world cfg df tr) = tr @ [EvError msg]))
   \<and> (fst (run_clicked world cfg df tr) \<noteq> None
      \<longrightarrow> (\<exists>evs. snd (run_clicked world cfg df tr) = tr @ evs \<and> filter is_error evs = [])
          \<and> length (the (fst (run_clicked world cfg df tr))) = length (records (capped_df cfg df)))"
proof (intro conjI impI)
  assume "client_id cfg = [] \<or> client_secret cfg = [] \<or> template_id cfg = [] \<or> channel_id cfg = []"
  then show "run_clicked world cfg df tr = (None, tr @ [EvError credentials_message])"
    by (auto simp add: run_clicked_def)
next
  assume "client_id cfg \<noteq> [] \<and> client_secret cfg \<noteq> [] \<and> template_id cfg \<noteq> []
        \<and> channel_id cfg \<noteq> []
        \<and> (''to_number'' \<notin> set (columns df) \<or> ''to_name'' \<notin> set (columns df))"
  then show "run_clicked world cfg df tr =
            (None,
             tr @ [EvError (''Missing required columns: ''
                     @ join_with '', '' (filter (\<lambda>c. c \<notin> set (columns df)) (required world)))])"
    by (auto simp add: run_clicked_def validate_dataframe_def required_def Let_def)
next
  assume "fst (run_clicked world cfg df tr) = None"
  then show "\<exists>msg. snd (run_clicked world cfg df tr) = tr @ [EvError msg]"
    by (auto simp add: run_clicked_def validate_dataframe_def Let_def split: if_splits prod.splits)
next
  assume ok: "fst (run_clicked world cfg df tr) \<noteq> None"
  obtain evs where evs:
    "snd (batch_loop world cfg (length (records (capped_df cfg df))) 1
            (to_dict_records (capped_df cfg df)) [] (tr @ [EvInfo starting_message]))
       = (tr @ [EvInfo starting_message]) @ evs" "filter is_error evs = []"
    using batch_loop_trace by blast
  have "snd (run_clicked world cfg df tr) = tr @ ([EvInfo starting_message] @ evs @ [EvDone])"
    using ok evs(1)
    by (auto simp add: run_clicked_def validate_dataframe_def Let_def split: if_splits prod.splits)
  moreover have "filter is_error ([EvInfo starting_message] @ evs @ [EvDone]) = []"
    using evs(2) by simp
  ultimately show "\<exists>evs. snd (run_clicked world cfg df tr) = tr @ evs \<and> filter is_error evs = []"
    by blast
  show "length (the (fst (run_clicked world cfg df tr))) = length (records (capped_df cfg df))"
    using ok
    by (simp add: run_clicked_outcome batch_loop_length to_dict_records_length split: if_splits)
qed

theorem preconditions_abort_run_witness:
  "run_clicked sample_world sample_cfg
      \<lparr>columns = [''phone'', ''to_name''], records = [[PInt 6281000001, PStr ''Ani'']]\<rparr> []
     = (None, [EvError ''Missing required columns: to_number''])
   \<and> run_clicked sample_world (sample_cfg\<lparr>client_secret := []\<rparr>) sample_df []
     = (None, [EvError credentials_message])
   \<and> fst (run_clicked sample_world sample_cfg sample_df []) \<noteq> None
   \<and> length (the (fst (run_clicked sample_world sample_cfg sample_df []))) = 3"
proof -
  have c: "capped_df sample_cfg sample_df = sample_df"
    by (simp add: capped_df_def sample_cfg_def)
  have ok: "fst (run_clicked sample_world sample_cfg sample_df []) \<noteq> None"
    by (simp add: run_clicked_outcome sample_cfg_def sample_df_def)
  have a: "run_clicked sample_world sample_cfg
      \<lparr>columns = [''phone'', ''to_name''], records = [[PInt 6281000001, PStr ''Ani'']]\<rparr> []
     = (None, [EvError ''Missing required columns: to_number''])"
    using preconditions_abort_run [where cfg = sample_cfg and world = sample_world and tr = "[]"
        and df = "\<lparr>columns = [''phone'', ''to_name''], records = [[PInt 6281000001, PStr ''Ani'']]\<rparr>",
        THEN conjunct2, THEN conjunct1]
    by (simp add: sample_cfg_def sample_world_def required_def join_with_def)
  have b: "run_clicked sample_world (sample_cfg\<lparr>client_secret := []\<rparr>) sample_df []
     = (None, [EvError credentials_message])"
    using preconditions_abort_run [where cfg = "sample_cfg\<lparr>client_secret := []\<rparr>"
        and world = sample_world and tr = "[]" and df = sample_df, THEN conjunct1]
    by simp
  have d: "length (the (fst (run_clicked sample_world sample_cfg sample_df []))) = 3"
    using preconditions_abort_run [where cfg = sample_cfg and world = sample_world and tr = "[]"
        and df = sample_df, THEN conjunct2, THEN conjunct2, THEN conjunct2] ok
    by (simp add: c) (simp add: sample_df_def)
  from a b ok d show ?thesis by simp
qed

text \<open>
  C8. The payload built for a recipient has a header block under \<open>parameters\<close> exactly when
  a media URL is configured, that is when \<open>image_url\<close> is neither \<open>None\<close> nor empty. The
  block has the format \<open>IMAGE\<close> and two parameters, the URL and the file name (the name
  \<open>banner.jpg\<close> when none is given). Without a media URL the payload has its six members
  and \<open>parameters\<close> holds the empty body only: there is no header key. This payload is the
  one the send posts.
\<close>

theorem payload_header_iff_media:
  "payload_header (build_payload number name template channel url fname) =
     (case url of
        None \<Rightarrow> None
      | Some u \<Rightarrow>
          if u = [] then None
          else Some (PDict [(''format'', PStr ''IMAGE''),
                            (''params'',
                             PList [PDict [(''key'', PStr ''url''), (''value'', PStr u)],
                                    PDict [(''key'', PStr ''filename''),
                                           (''value'',
                                            PStr (case fname of
                                                    None \<Rightarrow> ''banner.jpg''
                                                  | Some f \<Rightarrow> if f = [] then ''banner.jpg'' else f))]])]))
   \<and> ((payload_header (build_payload number name template channel url fname) \<noteq> None)
        = (url \<noteq> None \<and> url \<noteq> Some []))
   \<and> (url = None \<or> url = Some [] \<longrightarrow>
        build_payload number name template channel url fname =
          PDict [(''to_number'', PStr number), (''to_name'', PStr name),
                 (''message_template_id'', PStr template),
                 (''channel_integration_id'', PStr channel),
                 (''language'', PDict [(''code'', PStr ''id'')]),
                 (''parameters'', PDict [(''body'', PList [])])])
   \<and> snd (send_whatsapp world row template channel url fname cid secret delay tr) ! Suc (length tr)
       = EvPost (API_BASE @ post_url_path)
           (build_payload (recipient_number row) (recipient_name row) template channel url fname)
           (auth_headers (utcnow world tr) ''POST'' post_url_path cid secret) 60"
proof (intro conjI)
  show h: "payload_header (build_payload number name template channel url fname) =
     (case url of
        None \<Rightarrow> None
      | Some u \<Rightarrow>
          if u = [] then None
          else Some (PDict [(''format'', PStr ''IMAGE''),
                            (''params'',
                             PList [PDict [(''key'', PStr ''url''), (''value'', PStr u)],
                                    PDict [(''key'', PStr ''filename''),
                                           (''value'',
                                            PStr (case fname of
                                                    None \<Rightarrow> ''banner.jpg''
                                                  | Some f \<Rightarrow> if f = [] then ''banner.jpg'' else f))]])]))"
    by (simp add: payload_header_def build_payload_def set_parameter_def dict_get_def
        header_block_def split: option.splits)
  show "(payload_header (build_payload number name template channel url fname) \<noteq> None)
        = (url \<noteq> None \<and> url \<noteq> Some [])"
    by (simp add: h split: option.splits)
  show "url = None \<or> url = Some [] \<longrightarrow>
        build_payload number name template channel url fname =
          PDict [(''to_number'', PStr number), (''to_name'', PStr name),
                 (''message_template_id'', PStr template),
                 (''channel_integration_id'', PStr channel),
                 (''language'', PDict [(''code'', PStr ''id'')]),
                 (''parameters'', PDict [(''body'', PList [])])]"
    by (auto simp add: build_payload_def)
  obtain evs where "snd (send_whatsapp world row template channel url fname cid secret delay tr) =
     tr @ [EvUtcnow, post_event world row template channel url fname cid secret tr] @ evs"
    using send_trace_prefix by blast
  then show "snd (send_whatsapp world row template channel url fname cid secret delay tr) ! Suc (length tr)
       = EvPost (API_BASE @ post_url_path)
           (build_payload (recipient_number row) (recipient_name row) template channel url fname)
           (auth_headers (utcnow world tr) ''POST'' post_url_path cid secret) 60"
    by (simp add: nth_append post_event_def)
qed

theorem payload_header_iff_media_witness:
  "payload_header (build_payload ''6281000001'' ''Ani'' ''tpl'' ''chan''
       (Some ''https://example.org/b.png'') None)
     = Some (PDict [(''format'', PStr ''IMAGE''),
                    (''params'',
                     PList [PDict [(''key'', PStr ''url''),
                                   (''value'', PStr ''https://example.org/b.png'')],
                            PDict [(''key'', PStr ''filename''),
                                   (''value'', PStr ''banner.jpg'')]])])
   \<and> (None = None \<or> None = Some [])
   \<and> build_payload ''6281000001'' ''Ani'' ''tpl'' ''chan'' None None =
        PDict [(''to_number'', PStr ''6281000001''), (''to_name'', PStr ''Ani''),
               (''message_template_id'', PStr ''tpl''),
               (''channel_integration_id'', PStr ''chan''),
               (''language'', PDict [(''code'', PStr ''id'')]),
               (''parameters'', PDict [(''body'', PList [])])]
   \<and> payload_header (build_payload ''6281000001'' ''Ani'' ''tpl'' ''chan'' (Some []) (Some ''x.png''))
     = None"
  using payload_header_iff_media [where number = "''6281000001''" and name = "''Ani''"
      and template = "''tpl''" and channel = "''chan''"
      and url = "Some ''https://example.org/b.png''" and fname = None, THEN conjunct1]
    payload_header_iff_media [where number = "''6281000001''" and name = "''Ani''"
      and template = "''tpl''" and channel = "''chan''" and url = None and fname = None,
      THEN conjunct2, THEN conjunct2, THEN conjunct1]
    payload_header_iff_media [where number = "''6281000001''" and name = "''Ani''"
      and template = "''tpl''" and channel = "''chan''" and url = "Some []"
      and fname = "Some ''x.png''", THEN conjunct1]
  by simp

section \<open>Evaluating the hash\<close>

text \<open>
  Equations by which the simplifier computes with 32-bit words: an addition is reduced by
  comparison and subtraction, a rotation by a shift.
\<close>

lemma add32_eval:
  "add32 a b = (let s = a + b in
     if s < 4294967296 then s else if s < 8589934592 then s - 4294967296 else s mod 4294967296)"
  by (simp add: add32_def Let_def mod_if)

lemma rotr_eval: "rotr n x = (let q = drop_bit n x in q + (x - q * 2 ^ n) * 2 ^ (32 - n))"
  by (simp add: rotr_def Let_def drop_bit_eq_div minus_mult_div_eq_mod mult.commute)

lemma shr_eval: "shr n x = drop_bit n x"
  by (simp add: shr_def drop_bit_eq_div)

lemma schedule_step_eval:
  "schedule_step (x # w) =
     add32 (add32 (small_sigma1 ((x # w) ! 1)) ((x # w) ! 6))
           (add32 (small_sigma0 ((x # w) ! 14)) ((x # w) ! 15))"
  by (simp only: schedule_step_def)

lemma Let_Suc0: "Let (Suc 0) f = f (Suc 0)"
  by simp

lemma replicate_numeral_eval: "replicate (numeral k) x = x # replicate (pred_numeral k) x"
  by (simp add: numeral_eq_Suc)

lemmas sha_eval = compress_def schedule_def sha256_h0_def sha256_k_def
  big_sigma0_def big_sigma1_def small_sigma0_def small_sigma1_def sha_ch_def sha_maj_def
  rotr_eval shr_eval add32_eval schedule_step_eval Let_Suc0

lemmas hmac_eval = hmac_sha256_def hmac_key_def sha256_def sha_pad_def be_bytes_def
  replicate_numeral_eval

text \<open>
  The compressions of the sample signatures, block by block, and of the message \<open>abc\<close>
  of the standard. The values agree with \<open>hashlib\<close> and \<open>hmac\<close>.
\<close>

lemma compress_ipad_key1:
  "compress sha256_h0
    [93, 83, 79, 7, 54, 54, 54, 54, 54, 54, 54, 54, 54, 54, 54, 54,
     54, 54, 54, 54, 54, 54, 54, 54, 54, 54, 54, 54, 54, 54, 54, 54,
     54, 54, 54, 54, 54, 54, 54, 54, 54, 54, 54, 54, 54, 54, 54, 54,
     54, 54, 54, 54, 54, 54, 54, 54, 54, 54, 54, 54, 54, 54, 54, 54] =
     (3051666891, 2204079431, 492900261, 327128591,
      4273421546, 1898450853, 295239428, 3334518891)"
  by (simp add: sha_eval)

lemma compress_inner_a:
  "compress (3051666891, 2204079431, 492900261, 327128591,
      4273421546, 1898450853, 295239428, 3334518891)
    [100, 97, 116, 101, 58, 32, 84, 104, 117, 44, 32, 50, 57, 32, 70, 101,
     98, 32, 50, 48, 50, 52, 32, 50, 51, 58, 53, 57, 58, 48, 57, 32,
     71, 77, 84, 10, 71, 69, 84, 32, 47, 118, 49, 32, 72, 84, 84, 80,
     47, 49, 46, 49, 128, 0, 0, 0, 0, 0, 0, 0, 0, 0, 3, 160] =
     (1988517768, 4225473719, 2090453809, 3984036359,
      2058614416, 1075981592, 860644677, 925078527)"
  by (simp add: sha_eval)

lemma compress_opad_key1:
  "compress sha256_h0
    [55, 57, 37, 109, 92, 92, 92, 92, 92, 92, 92, 92, 92, 92, 92, 92,
     92, 92, 92, 92, 92, 92, 92, 92, 92, 92, 92, 92, 92, 92, 92, 92,
     92, 92, 92, 92, 92, 92, 92, 92, 92, 92, 92, 92, 92, 92, 92, 92,
     92, 92, 92, 92, 92, 92, 92, 92, 92, 92, 92, 92, 92, 92, 92, 92] =
     (2708331572, 2201423253, 926672317, 2150135354,
      139610660, 4121780165, 1182455311, 2616942544)"
  by (simp add: sha_eval)

lemma compress_outer_a:
  "compress (2708331572, 2201423253, 926672317, 2150135354,
      139610660, 4121780165, 1182455311, 2616942544)
    [118, 134, 95, 136, 251, 219, 156, 183, 124, 153, 203, 49, 237, 119, 146, 7,
     122, 179, 246, 144, 64, 34, 45, 24, 51, 76, 101, 69, 55, 35, 147, 255,
     128, 0, 0, 0, 0, 0, 0, 0, 0, 0, 0, 0, 0, 0, 0, 0,
     0, 0, 0, 0, 0, 0, 0, 0, 0, 0, 0, 0, 0, 0, 3, 0] =
     (4035085008, 596401884, 4277463416, 3543993811,
      554625285, 3684434731, 3437313703, 2575605570)"
  by (simp add: sha_eval)

lemma compress_ipad_key2:
  "compress sha256_h0
    [93, 83, 79, 4, 54, 54, 54, 54, 54, 54, 54, 54, 54, 54, 54, 54,
     54, 54, 54, 54, 54, 54, 54, 54, 54, 54, 54, 54, 54, 54, 54, 54,
     54, 54, 54, 54, 54, 54, 54, 54, 54, 54, 54, 54, 54, 54, 54, 54,
     54, 54, 54, 54, 54, 54, 54, 54, 54, 54, 54, 54, 54, 54, 54, 54] =
     (582139614, 2108855509, 2750748331, 3842347005,
      3910494217, 1129558820, 478053611, 2269378092)"
  by (simp add: sha_eval)

lemma compress_inner_b:
  "compress (582139614, 2108855509, 2750748331, 3842347005,
      3910494217, 1129558820, 478053611, 2269378092)
    [100, 97, 116, 101, 58, 32, 84, 104, 117, 44, 32, 50, 57, 32, 70, 101,
     98, 32, 50, 48, 50, 52, 32, 50, 51, 58, 53, 57, 58, 48, 57, 32,
     71, 77, 84, 10, 71, 69, 84, 32, 47, 118, 49, 32, 72, 84, 84, 80,
     47, 49, 46, 49, 128, 0, 0, 0, 0, 0, 0, 0, 0, 0, 3, 160] =
     (3584420637, 1479741024, 2315813851, 1356259908,
      1809566017, 1998893288, 27222868, 587701157)"
  by (simp add: sha_eval)

lemma compress_opad_key2:
  "compress sha256_h0
    [55, 57, 37, 110, 92, 92, 92, 92, 92, 92, 92, 92, 92, 92, 92, 92,
     92, 92, 92, 92, 92, 92, 92, 92, 92, 92, 92, 92, 92, 92, 92, 92,
     92, 92, 92, 92, 92, 92, 92, 92, 92, 92, 92, 92, 92, 92, 92, 92,
     92, 92, 92, 92, 92, 92, 92, 92, 92, 92, 92, 92, 92, 92, 92, 92] =
     (518826053, 2493881185, 584610923, 2850125639,
      2446146031, 3490618777, 926556148, 2991085914)"
  by (simp add: sha_eval)

lemma compress_outer_b:
  "compress (518826053, 2493881185, 584610923, 2850125639,
      2446146031, 3490618777, 926556148, 2991085914)
    [213, 165, 235, 29, 88, 51, 14, 96, 138, 8, 131, 219, 80, 214, 226, 68,
     107, 219, 201, 65, 119, 36, 176, 232, Suc 0, 159, 99, 84, 35, 7, 155, 165,
     128, 0, 0, 0, 0, 0, 0, 0, 0, 0, 0, 0, 0, 0, 0, 0,
     0, 0, 0, 0, 0, 0, 0, 0, 0, 0, 0, 0, 0, 0, 3, 0] =
     (4080445827, 3717950620, 4238535487, 1346579427,
      3837918366, 3262195071, 1041231128, 602559108)"
  by (simp add: sha_eval)

lemma compress_inner_c:
  "compress (3051666891, 2204079431, 492900261, 327128591,
      4273421546, 1898450853, 295239428, 3334518891)
    [100, 97, 116, 101, 58, 32, 84, 104, 117, 44, 32, 50, 57, 32, 70, 101,
     98, 32, 50, 48, 50, 52, 32, 50, 51, 58, 53, 57, 58, 48, 57, 32,
     71, 77, 84, 10, 71, 69, 84, 32, 47, 118, 50, 32, 72, 84, 84, 80,
     47, 49, 46, 49, 128, 0, 0, 0, 0, 0, 0, 0, 0, 0, 3, 160] =
     (1532223507, 4262964509, 305631243, 1804407620,
      3103663141, 1043844671, 173729052, 1905970421)"
  by (simp add: sha_eval)

lemma compress_outer_c:
  "compress (2708331572, 2201423253, 926672317, 2150135354,
      139610660, 4121780165, 1182455311, 2616942544)
    [91, 83, 224, 19, 254, 23, 173, 29, 18, 55, 144, 11, 107, 141, 19, 68,
     184, 254, 36, 37, 62, 55, 206, 63, 10, 90, 229, 28, 113, 154, 204, 245,
     128, 0, 0, 0, 0, 0, 0, 0, 0, 0, 0, 0, 0, 0, 0, 0,
     0, 0, 0, 0, 0, 0, 0, 0, 0, 0, 0, 0, 0, 0, 3, 0] =
     (3609199679, 1849067446, 2934760402, 1719864792,
      3188567652, 3543685244, 4276406014, 2882607139)"
  by (simp add: sha_eval)

lemma compress_abc:
  "compress sha256_h0
    [97, 98, 99, 128, 0, 0, 0, 0, 0, 0, 0, 0, 0, 0, 0, 0,
     0, 0, 0, 0, 0, 0, 0, 0, 0, 0, 0, 0, 0, 0, 0, 0,
     0, 0, 0, 0, 0, 0, 0, 0, 0, 0, 0, 0, 0, 0, 0, 0,
     0, 0, 0, 0, 0, 0, 0, 0, 0, 0, 0, 0, 0, 0, 0, 24] =
     (3128432319, 2399260650, 1094795486, 1571693091,
      2953011619, 2518121116, 3021012833, 4060091821)"
  by (simp add: sha_eval)

lemma signature_a:
  "signature ''key1'' (string_to_sign ''Thu, 29 Feb 2024 23:59:09 GMT'' ''GET'' ''/v1'') =
     ''8IKC0COMXtz+9Ol40z0N0yEO6QXbnAMrzOE+p5mEn0I=''"
  by (simp add: signature_def string_to_sign_def request_line_def newline_def utf8_encode_def
      hmac_eval b64_alphabet_def compress_ipad_key1 compress_inner_a compress_opad_key1 compress_outer_a)

lemma signature_b:
  "signature ''key2'' (string_to_sign ''Thu, 29 Feb 2024 23:59:09 GMT'' ''GET'' ''/v1'') =
     ''8zapg92bbJz8ous/UEMr4+TB/J7CcSV/Pg/tGCPqUoQ=''"
  by (simp add: signature_def string_to_sign_def request_line_def newline_def utf8_encode_def
      hmac_eval b64_alphabet_def compress_ipad_key2 compress_inner_b compress_opad_key2 compress_outer_b)

lemma signature_c:
  "signature ''key1'' (string_to_sign ''Thu, 29 Feb 2024 23:59:09 GMT'' ''GET'' ''/v2'') =
     ''1yAEP242h7au7OPSZoMN2L4NrmTTOFh8/uTG/qvRGCM=''"
  by (simp add: signature_def string_to_sign_def request_line_def newline_def utf8_encode_def
      hmac_eval b64_alphabet_def compress_ipad_key1 compress_inner_c compress_opad_key1 compress_outer_c)

lemma sha256_abc:
  "sha256 [97, 98, 99] =
     [186, 120, 22, 191, 143, 1, 207, 234, 65, 65, 64, 222, 93, 174, 34, 35,
      176, 3, 97, 163, 150, 23, 122, 156, 180, 16, 255, 97, 242, 0, 21, 173]"
  by (simp add: hmac_eval compress_abc)

section \<open>The date of a clock reading\<close>

lemma digit_char_0: "digit_char 0 = CHR ''0''"
  by (simp add: digit_char_def)

lemma dec_nat_small: "n < 10 \<Longrightarrow> dec_nat n = [digit_char n]"
  by (simp add: dec_nat.simps [of n])

lemma dec_nat_step: "10 \<le> n \<Longrightarrow> dec_nat n = dec_nat (n div 10) @ [digit_char (n mod 10)]"
  by (simp add: dec_nat.simps [of n])

lemma pad2_two_digits: "n < 100 \<Longrightarrow> pad2 n = two_digits n"
proof (cases "n < 10")
  case True
  then show ?thesis
    by (simp add: pad2_def two_digits_def dec_nat_small digit_char_0)
next
  case False
  assume "n < 100"
  with False have "10 \<le> n" and "n div 10 < 10" by auto
  then show ?thesis
    by (simp add: pad2_def two_digits_def dec_nat_step dec_nat_small)
qed

lemma dec_nat_four_digits:
  assumes "1000 \<le> n" and "n < 10000"
  shows "dec_nat n = four_digits n"
proof -
  have a: "10 \<le> n" "10 \<le> n div 10" "10 \<le> n div 10 div 10" "n div 10 div 10 div 10 < 10"
    using assms by auto
  have "dec_nat n = [digit_char (n div 10 div 10 div 10), digit_char (n div 10 div 10 mod 10),
      digit_char (n div 10 mod 10), digit_char (n mod 10)]"
    by (simp only: dec_nat_step [OF a(1)] dec_nat_step [OF a(2)] dec_nat_step [OF a(3)]
        dec_nat_small [OF a(4)] append.simps)
  also have "\<dots> = four_digits n"
    by (simp add: four_digits_def div_mult2_eq [symmetric])
  finally show ?thesis .
qed

lemma strftime_rfc1123:
  assumes "valid_datetime t" and "1000 \<le> dt_year t"
  shows "strftime ''%a, %d %b %Y %H:%M:%S GMT'' t = rfc1123_date t"
proof -
  have "dt_day t < 100"
    using assms(1) by (auto simp: valid_datetime_def days_in_month_def nth_Cons' split: if_splits)
  moreover have "dt_hour t < 100" "dt_minute t < 100" "dt_second t < 100" "dt_year t < 10000"
    using assms(1) by (auto simp: valid_datetime_def)
  ultimately show ?thesis
    using assms(2)
    by (simp add: directive_def rfc1123_date_def pad2_two_digits dec_nat_four_digits)
qed

lemma sample_date: "strftime ''%a, %d %b %Y %H:%M:%S GMT'' sample_now = ''Thu, 29 Feb 2024 23:59:09 GMT''"
  by (simp add: sample_now_def directive_def weekday_def ymd2ord_def days_before_year_def
      days_before_month_def is_leap_def day_abbr_def month_abbr_def pad2_def dec_nat.simps
      digit_char_def)

lemma sample_now_valid: "valid_datetime sample_now \<and> 1000 \<le> dt_year sample_now"
  by (simp add: sample_now_def valid_datetime_def days_in_month_def is_leap_def)

section \<open>The claims about the signer\<close>

text \<open>
  C5. For every method, path, client id, client secret and clock reading (a valid date and
  time of a year of four digits), the headers the signer returns are: \<open>Authorization\<close>,
  of the form \<open>hmac username="<client_id>", algorithm="hmac-sha256", headers="date
  request-line", signature="<sig>"\<close>, where \<open><sig>\<close> is the Base64 text of the HMAC-SHA256,
  keyed by the UTF-8 bytes of the secret, of the two lines \<open>date: <Date>\<close> and
  \<open><METHOD> <path> HTTP/1.1\<close> joined by a line feed; \<open>Date\<close>, the clock reading as an
  RFC 1123 date, the same text as in the signed lines; and \<open>Content-Type\<close>.
\<close>

theorem auth_headers_format:
  assumes "valid_datetime (utcnow world tr)" and "1000 \<le> dt_year (utcnow world tr)"
  shows \<open>fst (generate_auth_headers world http_method url_path cid secret tr) =
     [(''Authorization'',
       ''hmac username="'' @ cid
         @ ''", algorithm="hmac-sha256", headers="date request-line", signature="''
         @ b64encode
             (hmac_sha256 (utf8_encode secret)
                (utf8_encode (''date: '' @ rfc1123_date (utcnow world tr) @ [CHR 0x0A]
                                @ http_method @ '' '' @ url_path @ '' HTTP/1.1'')))
         @ ''"''),
      (''Date'', rfc1123_date (utcnow world tr)),
      (''Content-Type'', ''application/json'')]\<close>
  by (simp add: generate_auth_headers_def auth_headers_def strftime_rfc1123 [OF assms]
      signature_def string_to_sign_def request_line_def newline_def dquote_def Let_def
      del: strftime.simps)

theorem auth_headers_format_witness:
  \<open>valid_datetime (utcnow sample_world []) \<and> 1000 \<le> dt_year (utcnow sample_world [])
   \<and> rfc1123_date (utcnow sample_world []) = ''Thu, 29 Feb 2024 23:59:09 GMT''
   \<and> fst (generate_auth_headers sample_world ''GET'' ''/v1'' ''client'' ''key1'' []) =
     [(''Authorization'',
       ''hmac username="client", algorithm="hmac-sha256", headers="date request-line", signature="8IKC0COMXtz+9Ol40z0N0yEO6QXbnAMrzOE+p5mEn0I="''),
      (''Date'', ''Thu, 29 Feb 2024 23:59:09 GMT''),
      (''Content-Type'', ''application/json'')]\<close>
proof -
  have u: "utcnow sample_world [] = sample_now"
    by (simp add: sample_world_def)
  have v: "valid_datetime (utcnow sample_world [])" "1000 \<le> dt_year (utcnow sample_world [])"
    using sample_now_valid by (simp_all add: u)
  have d: "rfc1123_date (utcnow sample_world []) = ''Thu, 29 Feb 2024 23:59:09 GMT''"
    using strftime_rfc1123 [OF v] by (simp only: u sample_date)
  have s: "b64encode
        (hmac_sha256 (utf8_encode ''key1'')
           (utf8_encode (''date: '' @ ''Thu, 29 Feb 2024 23:59:09 GMT'' @ [CHR 0x0A]
                           @ ''GET'' @ '' '' @ ''/v1'' @ '' HTTP/1.1'')))
      = ''8IKC0COMXtz+9Ol40z0N0yEO6QXbnAMrzOE+p5mEn0I=''"
    using signature_a
    by (simp only: signature_def string_to_sign_def request_line_def newline_def)
  show ?thesis
    using auth_headers_format [OF v, of "''GET''" "''/v1''" "''client''" "''key1''"] v
    by (simp only: d s) simp
qed

text \<open>
  C6. The headers depend on the method, the path, the client id, the secret and the clock
  reading only: two calls in two worlds whose clocks read the same return the same headers.
  At the clock reading \<open>Thu, 29 Feb 2024 23:59:09 GMT\<close>, for the method \<open>GET\<close> and the
  path \<open>/v1\<close>, the secrets \<open>key1\<close> and \<open>key2\<close> give different signatures and
  different \<open>Authorization\<close> headers, and so do the paths \<open>/v1\<close> and \<open>/v2\<close> under
  the secret \<open>key1\<close>. The \<open>Date\<close> header is the date text that stands in the signed
  lines, after \<open>date: \<close>.
\<close>

theorem signer_deterministic:
  \<open>(utcnow world tr = utcnow world' tr' \<longrightarrow>
      fst (generate_auth_headers world http_method url_path cid secret tr)
        = fst (generate_auth_headers world' http_method url_path cid secret tr'))
   \<and> signature ''key1'' (string_to_sign (strftime ''%a, %d %b %Y %H:%M:%S GMT'' sample_now) ''GET'' ''/v1'')
       \<noteq> signature ''key2'' (string_to_sign (strftime ''%a, %d %b %Y %H:%M:%S GMT'' sample_now) ''GET'' ''/v1'')
   \<and> signature ''key1'' (string_to_sign (strftime ''%a, %d %b %Y %H:%M:%S GMT'' sample_now) ''GET'' ''/v1'')
       \<noteq> signature ''key1'' (string_to_sign (strftime ''%a, %d %b %Y %H:%M:%S GMT'' sample_now) ''GET'' ''/v2'')
   \<and> map_of (auth_headers sample_now ''GET'' ''/v1'' cid ''key1'') ''Authorization''
       \<noteq> map_of (auth_headers sample_now ''GET'' ''/v1'' cid ''key2'') ''Authorization''
   \<and> map_of (auth_headers sample_now ''GET'' ''/v1'' cid ''key1'') ''Authorization''
       \<noteq> map_of (auth_headers sample_now ''GET'' ''/v2'' cid ''key1'') ''Authorization''
   \<and> (\<exists>d. map_of (fst (generate_auth_headers world http_method url_path cid secret tr)) ''Date''
              = Some d
          \<and> map_of (fst (generate_auth_headers world http_method url_path cid secret tr))
                ''Authorization''
              = Some (''hmac username="'' @ cid
                        @ ''", algorithm="hmac-sha256", headers="date request-line", signature="''
                        @ signature secret
                            (''date: '' @ d @ [CHR 0x0A] @ http_method @ '' '' @ url_path
                               @ '' HTTP/1.1'')
                        @ ''"''))\<close>
proof (intro conjI impI)
  assume "utcnow world tr = utcnow world' tr'"
  then show "fst (generate_auth_headers world http_method url_path cid secret tr)
        = fst (generate_auth_headers world' http_method url_path cid secret tr')"
    by (simp add: generate_auth_headers_def)
next
  show a: "signature ''key1'' (string_to_sign (strftime ''%a, %d %b %Y %H:%M:%S GMT'' sample_now) ''GET'' ''/v1'')
       \<noteq> signature ''key2'' (string_to_sign (strftime ''%a, %d %b %Y %H:%M:%S GMT'' sample_now) ''GET'' ''/v1'')"
    by (simp only: sample_date signature_a signature_b) simp
  show b: "signature ''key1'' (string_to_sign (strftime ''%a, %d %b %Y %H:%M:%S GMT'' sample_now) ''GET'' ''/v1'')
       \<noteq> signature ''key1'' (string_to_sign (strftime ''%a, %d %b %Y %H:%M:%S GMT'' sample_now) ''GET'' ''/v2'')"
    by (simp only: sample_date signature_a signature_c) simp
  show "map_of (auth_headers sample_now ''GET'' ''/v1'' cid ''key1'') ''Authorization''
       \<noteq> map_of (auth_headers sample_now ''GET'' ''/v1'' cid ''key2'') ''Authorization''"
    using a by (simp add: auth_headers_def Let_def del: strftime.simps)
  show "map_of (auth_headers sample_now ''GET'' ''/v1'' cid ''key1'') ''Authorization''
       \<noteq> map_of (auth_headers sample_now ''GET'' ''/v2'' cid ''key1'') ''Authorization''"
    using b by (simp add: auth_headers_def Let_def del: strftime.simps)
next
  show \<open>\<exists>d. map_of (fst (generate_auth_headers world http_method url_path cid secret tr)) ''Date''
              = Some d
          \<and> map_of (fst (generate_auth_headers world http_method url_path cid secret tr))
                ''Authorization''
              = Some (''hmac username="'' @ cid
                        @ ''", algorithm="hmac-sha256", headers="date request-line", signature="''
                        @ signature secret
                            (''date: '' @ d @ [CHR 0x0A] @ http_method @ '' '' @ url_path
                               @ '' HTTP/1.1'')
                        @ ''"'')\<close>
    by (simp add: generate_auth_headers_def auth_headers_def string_to_sign_def request_line_def
        newline_def dquote_def Let_def del: strftime.simps)
qed

theorem signer_deterministic_witness:
  \<open>utcnow sample_world [] = utcnow (sample_world\<lparr>to_number_first := False\<rparr>) [EvUtcnow]
   \<and> fst (generate_auth_headers sample_world ''GET'' ''/v1'' ''client'' ''key1'' [])
       = fst (generate_auth_headers (sample_world\<lparr>to_number_first := False\<rparr>) ''GET'' ''/v1''
                ''client'' ''key1'' [EvUtcnow])
   \<and> signature ''key1'' (string_to_sign ''Thu, 29 Feb 2024 23:59:09 GMT'' ''GET'' ''/v1'')
       = ''8IKC0COMXtz+9Ol40z0N0yEO6QXbnAMrzOE+p5mEn0I=''
   \<and> signature ''key2'' (string_to_sign ''Thu, 29 Feb 2024 23:59:09 GMT'' ''GET'' ''/v1'')
       = ''8zapg92bbJz8ous/UEMr4+TB/J7CcSV/Pg/tGCPqUoQ=''
   \<and> signature ''key1'' (string_to_sign ''Thu, 29 Feb 2024 23:59:09 GMT'' ''GET'' ''/v2'')
       = ''1yAEP242h7au7OPSZoMN2L4NrmTTOFh8/uTG/qvRGCM=''\<close>
proof -
  have u: "utcnow sample_world [] = utcnow (sample_world\<lparr>to_number_first := False\<rparr>) [EvUtcnow]"
    by (simp add: sample_world_def)
  have "fst (generate_auth_headers sample_world ''GET'' ''/v1'' ''client'' ''key1'' [])
       = fst (generate_auth_headers (sample_world\<lparr>to_number_first := False\<rparr>) ''GET'' ''/v1''
                ''client'' ''key1'' [EvUtcnow])"
    using signer_deterministic [where world = sample_world
        and world' = "sample_world\<lparr>to_number_first := False\<rparr>" and tr = "[]"
        and tr' = "[EvUtcnow]" and http_method = "''GET''" and url_path = "''/v1''"
        and cid = "''client''" and secret = "''key1''", THEN conjunct1] u
    by blast
  then show ?thesis
    using u by (simp only: signature_a signature_b signature_c)
qed

end
